theory Spec2Isabelle
  imports Complex_Main "HOL-Library.Word"
begin

section \<open>Values\<close>

text \<open>
  The script \<^verbatim>\<open>stock_analysis_app.py\<close> is a linear Streamlit page. Its numbers are
  Python floats held in pandas columns. They are modelled as reals; a position of a
  derived series that pandas or TA-Lib marks as missing (NaN) is \<open>None\<close>. The columns
  of the price table itself hold reals, so a loaded price is never NaN in this model.
\<close>

type_synonym series = "real option list"

datatype error =
    KeyError string
  | TypeError string
  | TA_BAD_PARAM

section \<open>Library calls used by the indicator code\<close>

subsection \<open>pandas: \<^verbatim>\<open>Series.rolling(window=w).mean()\<close> and \<^verbatim>\<open>.std()\<close>\<close>

text \<open>
  Modelled from the spec: the rolling statistics, which pandas computes; its code is
  not part of the repository. The spec (4.3) gives the mean of the trailing window,
  undefined for the first \<open>window - 1\<close> rows, and a rolling standard deviation. The
  script calls \<^verbatim>\<open>rolling(window=w)\<close> with the window only, so \<^verbatim>\<open>min_periods\<close> is the
  window: position \<open>i\<close> has a value only when the \<open>w\<close> rows ending at \<open>i\<close> exist.
  It calls \<^verbatim>\<open>std()\<close> without arguments, so \<^verbatim>\<open>ddof\<close> is 1 (sample standard
  deviation): with fewer than two observations in the window it is NaN.
\<close>

definition window_at :: "nat \<Rightarrow> real list \<Rightarrow> nat \<Rightarrow> real list" where
  "window_at w xs i = take w (drop (Suc i - w) xs)"

definition mean :: "real list \<Rightarrow> real" where
  "mean xs = sum_list xs / real (length xs)"

definition var_ddof1 :: "real list \<Rightarrow> real" where
  "var_ddof1 xs =
     sum_list (map (\<lambda>x. (x - mean xs) ^ 2) xs) / (real (length xs) - 1)"

definition rolling_mean :: "nat \<Rightarrow> real list \<Rightarrow> series" where
  "rolling_mean w xs =
     map (\<lambda>i. if w = 0 \<or> Suc i < w then None else Some (mean (window_at w xs i)))
         [0..<length xs]"

definition rolling_std :: "nat \<Rightarrow> real list \<Rightarrow> series" where
  "rolling_std w xs =
     map (\<lambda>i. if w < 2 \<or> Suc i < w then None
               else Some (sqrt (var_ddof1 (window_at w xs i))))
         [0..<length xs]"

subsection \<open>pandas: arithmetic on series\<close>

text \<open>
  \<^verbatim>\<open>k * s\<close> and \<^verbatim>\<open>a + b\<close>, \<^verbatim>\<open>a - b\<close> on series over the same index work position
  by position; a missing operand gives a missing result.
\<close>

definition series_scale :: "real \<Rightarrow> series \<Rightarrow> series" where
  "series_scale k s = map (map_option (\<lambda>x. k * x)) s"

fun lift2 :: "(real \<Rightarrow> real \<Rightarrow> real) \<Rightarrow> real option \<Rightarrow> real option \<Rightarrow> real option" where
  "lift2 f (Some x) (Some y) = Some (f x y)"
| "lift2 f _ _ = None"

definition series_add :: "series \<Rightarrow> series \<Rightarrow> series" where
  "series_add a b = map2 (lift2 (+)) a b"

definition series_sub :: "series \<Rightarrow> series \<Rightarrow> series" where
  "series_sub a b = map2 (lift2 (-)) a b"

subsection \<open>TA-Lib: \<^verbatim>\<open>talib.RSI(real, timeperiod)\<close>\<close>

text \<open>
  Modelled from the spec: \<^verbatim>\<open>talib.RSI\<close>, whose code is not part of the repository.
  The spec (4.3) asks for the standard Wilder-style index, following the reference
  library's convention; this is the convention of TA-Lib. The time period must
  lie between 2 and 100000, otherwise the call raises (\<^verbatim>\<open>TA_BAD_PARAM\<close>). Its
  lookback is the time period: the first value needs \<open>timeperiod\<close> price changes, so
  \<open>timeperiod + 1\<close> prices, and the first \<open>timeperiod\<close> positions of the result
  are NaN. The seed averages the gains and the losses of the first \<open>timeperiod\<close>
  changes; every later step takes \<open>(previous * (timeperiod - 1) + current) / timeperiod\<close>.
  The value is \<open>100 * gain / (gain + loss)\<close>, and 0 when \<open>gain + loss\<close> is within
  \<open>1e-8\<close> of zero.
\<close>

definition TA_IS_ZERO :: "real \<Rightarrow> bool" where
  "TA_IS_ZERO v = (- (1 / 100000000) < v \<and> v < 1 / 100000000)"

definition rsi_value :: "real \<Rightarrow> real \<Rightarrow> real" where
  "rsi_value prevGain prevLoss =
     (let tempValue1 = prevGain + prevLoss
      in if \<not> TA_IS_ZERO tempValue1 then 100 * (prevGain / tempValue1) else 0)"

fun rsi_seed :: "real \<Rightarrow> real \<Rightarrow> real \<Rightarrow> real list \<Rightarrow> real \<times> real \<times> real" where
  "rsi_seed prevValue prevGain prevLoss [] = (prevValue, prevGain, prevLoss)"
| "rsi_seed prevValue prevGain prevLoss (x # xs) =
     (let tempValue2 = x - prevValue
      in if tempValue2 < 0 then rsi_seed x prevGain (prevLoss - tempValue2) xs
         else rsi_seed x (prevGain + tempValue2) prevLoss xs)"

fun rsi_loop :: "nat \<Rightarrow> real \<Rightarrow> real \<Rightarrow> real \<Rightarrow> real list \<Rightarrow> real list" where
  "rsi_loop n prevValue prevGain prevLoss [] = []"
| "rsi_loop n prevValue prevGain prevLoss (x # xs) =
     (let tempValue2 = x - prevValue;
          l1 = prevLoss * (real n - 1);
          g1 = prevGain * (real n - 1);
          l2 = (if tempValue2 < 0 then l1 - tempValue2 else l1);
          g2 = (if tempValue2 < 0 then g1 else g1 + tempValue2);
          l3 = l2 / real n;
          g3 = g2 / real n
      in rsi_value g3 l3 # rsi_loop n x g3 l3 xs)"

definition RSI :: "real list \<Rightarrow> nat \<Rightarrow> error + series" where
  "RSI closes timeperiod =
     (if timeperiod < 2 \<or> 100000 < timeperiod then Inl TA_BAD_PARAM
      else if length closes \<le> timeperiod then Inr (replicate (length closes) None)
      else (case rsi_seed (hd closes) 0 0 (take timeperiod (tl closes)) of
              (prevValue, g, l) \<Rightarrow>
                let prevGain = g / real timeperiod;
                    prevLoss = l / real timeperiod
                in Inr (replicate timeperiod None @
                        map Some (rsi_value prevGain prevLoss #
                                  rsi_loop timeperiod prevValue prevGain prevLoss
                                    (drop (Suc timeperiod) closes)))))"

section \<open>Indicator code of the script\<close>

text \<open>Line 119: \<^verbatim>\<open>sma = df['Close'].rolling(window=sma_periods).mean()\<close>.\<close>

definition sma :: "real list \<Rightarrow> nat \<Rightarrow> series" where
  "sma close sma_periods = rolling_mean sma_periods close"

text \<open>
  Lines 130 to 133:
  \<^verbatim>\<open>upper_band = rolling_mean + bb_std * rolling_std\<close> and
  \<^verbatim>\<open>lower_band = rolling_mean - bb_std * rolling_std\<close>.
\<close>

definition upper_band :: "real list \<Rightarrow> nat \<Rightarrow> real \<Rightarrow> series" where
  "upper_band close bb_periods bb_std =
     series_add (rolling_mean bb_periods close)
                (series_scale bb_std (rolling_std bb_periods close))"

definition lower_band :: "real list \<Rightarrow> nat \<Rightarrow> real \<Rightarrow> series" where
  "lower_band close bb_periods bb_std =
     series_sub (rolling_mean bb_periods close)
                (series_scale bb_std (rolling_std bb_periods close))"

section \<open>The price table\<close>

text \<open>
  A pandas DataFrame: an index of dates with its name, and labelled columns of equal
  length. \<^verbatim>\<open>yf.download\<close> gives two-level column labels (price field, ticker);
  \<^verbatim>\<open>load_data\<close> keeps level 0. Column labels of one download are distinct.
\<close>

datatype date = Date (year: int) (month: int) (day: int)

definition date_gt :: "date \<Rightarrow> date \<Rightarrow> bool" where
  "date_gt a b =
     (year b < year a \<or>
      (year a = year b \<and> (month b < month a \<or> (month a = month b \<and> day b < day a))))"

record 'c frame =
  index_name :: string
  index :: "date list"
  columns :: "('c \<times> real list) list"

definition wf_frame :: "'c frame \<Rightarrow> bool" where
  "wf_frame df =
     (distinct (map fst (columns df)) \<and>
      list_all (\<lambda>c. length (snd c) = length (index df)) (columns df))"

text \<open>\<^verbatim>\<open>df.empty\<close>: some axis has length 0.\<close>

definition empty :: "'c frame \<Rightarrow> bool" where
  "empty df = (index df = [] \<or> columns df = [])"

text \<open>\<^verbatim>\<open>df.columns.to_list()\<close>.\<close>

definition columns_to_list :: "'c frame \<Rightarrow> 'c list" where
  "columns_to_list df = map fst (columns df)"

text \<open>\<^verbatim>\<open>df['Close']\<close>: one column, \<^verbatim>\<open>KeyError\<close> when the label is absent.\<close>

definition getitem :: "string frame \<Rightarrow> string \<Rightarrow> error + real list" where
  "getitem df c =
     (case map_of (columns df) c of None \<Rightarrow> Inl (KeyError c) | Some v \<Rightarrow> Inr v)"

text \<open>
  \<^verbatim>\<open>df[columns_to_show]\<close>: the listed columns in the listed order, over the same
  index; \<^verbatim>\<open>KeyError\<close> when a label is absent.
\<close>

fun select_columns ::
  "(string \<times> real list) list \<Rightarrow> string list \<Rightarrow> error + (string \<times> real list) list" where
  "select_columns cols [] = Inr []"
| "select_columns cols (c # cs) =
     (case map_of cols c of
        None \<Rightarrow> Inl (KeyError c)
      | Some v \<Rightarrow>
          (case select_columns cols cs of
             Inl e \<Rightarrow> Inl e
           | Inr r \<Rightarrow> Inr ((c, v) # r)))"

definition getitem_list :: "string frame \<Rightarrow> string list \<Rightarrow> error + string frame" where
  "getitem_list df cs =
     (case select_columns (columns df) cs of
        Inl e \<Rightarrow> Inl e
      | Inr r \<Rightarrow> Inr \<lparr>index_name = index_name df, index = index df, columns = r\<rparr>)"

section \<open>What the script does not define\<close>

text \<open>
  The data provider behind \<^verbatim>\<open>yf.download\<close>, the way \<^verbatim>\<open>to_csv\<close> prints an index
  entry and a value, and the platform's line separator are parameters. pandas prints a
  value by the dtype of its column (a volume of dtype int64 as \<open>100\<close>, a close of dtype
  float64 as \<open>100.0\<close>); the table of the model holds the values only, so the printing
  is given per column label.
\<close>

record env =
  yf_download :: "string \<Rightarrow> date \<Rightarrow> date \<Rightarrow> (string \<times> string) frame"
  fmt_value :: "string \<Rightarrow> real \<Rightarrow> string"
  fmt_index :: "date \<Rightarrow> string"
  linesep :: string

section \<open>Step 1: the cached loaders\<close>

subsection \<open>\<^verbatim>\<open>get_sp500_components\<close>\<close>

text \<open>
  \<^verbatim>\<open>requests.get(url, params=None, **kwargs)\<close>: the second positional argument is
  the query parameters; request headers are the keyword argument \<^verbatim>\<open>headers\<close>,
  laid over the library's default headers.
\<close>

record request =
  http_method :: string
  url :: string
  params :: "(string \<times> string) list"
  headers :: "(string \<times> string) list"

datatype response = Response request

definition merge_headers ::
  "(string \<times> string) list \<Rightarrow> (string \<times> string) list \<Rightarrow> (string \<times> string) list" where
  "merge_headers default_headers hs =
     hs @ filter (\<lambda>d. fst d \<notin> set (map fst hs)) default_headers"

definition requests_get ::
  "(string \<times> string) list \<Rightarrow> string \<Rightarrow> (string \<times> string) list option \<Rightarrow>
   (string \<times> string) list option \<Rightarrow> request" where
  "requests_get default_headers u ps hs =
     \<lparr>http_method = ''GET'', url = u,
      params = (case ps of None \<Rightarrow> [] | Some q \<Rightarrow> q),
      headers = merge_headers default_headers (case hs of None \<Rightarrow> [] | Some h \<Rightarrow> h)\<rparr>"

text \<open>A \<^verbatim>\<open>requests.Response\<close> has no \<^verbatim>\<open>__getitem__\<close>: \<^verbatim>\<open>df[0]\<close> raises.\<close>

definition response_getitem ::
  "response \<Rightarrow> nat \<Rightarrow> error + (string \<times> string list) list" where
  "response_getitem r i = Inl (TypeError ''Response object is not subscriptable'')"

text \<open>
  Python's \<^verbatim>\<open>dict(pairs)\<close>: a later pair replaces an earlier one with the same key.
\<close>

definition dict :: "('k \<times> 'v) list \<Rightarrow> ('k \<rightharpoonup> 'v)" where
  "dict ps = map_of (rev ps)"

record directory =
  available_tickers :: "string list"
  tickers_companies_dict :: "string \<rightharpoonup> string"

definition sp500_url :: string where
  "sp500_url = ''https://en.wikipedia.org/wiki/List_of_S%26P_500_companies''"

definition spoofed_user_agent :: string where
  "spoofed_user_agent =
     ''Mozilla/5.0 (Windows NT 10.0; Win64; x64) AppleWebKit/537.36 (KHTML, like Gecko) Chrome/91.0.4472.124 Safari/537.36''"

text \<open>Line 16: \<^verbatim>\<open>requests.get(sp500_url, headers)\<close>; the request the loader sends.\<close>

definition sp500_request :: "(string \<times> string) list \<Rightarrow> request" where
  "sp500_request default_headers =
     (let headers = [(''User-Agent'', spoofed_user_agent)]
      in requests_get default_headers sp500_url (Some headers) None)"

definition table_column ::
  "(string \<times> string list) list \<Rightarrow> string \<Rightarrow> error + string list" where
  "table_column t c = (case map_of t c of None \<Rightarrow> Inl (KeyError c) | Some v \<Rightarrow> Inr v)"

definition get_sp500_components ::
  "(string \<times> string) list \<Rightarrow> (request \<Rightarrow> response) \<Rightarrow> error + directory" where
  "get_sp500_components default_headers send =
     (let df = send (sp500_request default_headers)
      in case response_getitem df 0 of
           Inl e \<Rightarrow> Inl e
         | Inr df \<Rightarrow>
             (case table_column df ''Symbol'' of
                Inl e \<Rightarrow> Inl e
              | Inr tickers \<Rightarrow>
                  (case table_column df ''Security'' of
                     Inl e \<Rightarrow> Inl e
                   | Inr security \<Rightarrow>
                       Inr \<lparr>available_tickers = tickers,
                            tickers_companies_dict = dict (zip tickers security)\<rparr>)))"

subsection \<open>\<^verbatim>\<open>load_data\<close>\<close>

definition load_data :: "env \<Rightarrow> string \<Rightarrow> date \<Rightarrow> date \<Rightarrow> string frame" where
  "load_data e symbol start stop =
     (let data = yf_download e symbol start stop
      in \<lparr>index_name = index_name data, index = index data,
          columns = map (\<lambda>c. (fst (fst c), snd c)) (columns data)\<rparr>)"

subsection \<open>\<^verbatim>\<open>convert_df_to_csv\<close>\<close>

text \<open>
  Modelled from the spec: \<^verbatim>\<open>DataFrame.to_csv\<close>, which pandas provides; its code is not
  part of the repository. The spec (4.5) asks for CSV text with a header row and the
  row index as the first column. The script calls \<^verbatim>\<open>df.to_csv()\<close> without arguments,
  so pandas' defaults apply: the header and the index are written, the separator is a
  comma, the first record is the index name followed by the column labels, and each
  later record is one row, the index entry first. A field holding a comma, a double
  quote or a line break is quoted, a double quote in it doubled; a record of one empty
  field is written as two double quotes.
\<close>

definition csv_field :: "string \<Rightarrow> string" where
  "csv_field s =
     (if \<exists>c \<in> set s. c \<in> {CHR '','', CHR 0x22, CHR 0x0A, CHR 0x0D}
      then [CHR 0x22] @ concat (map (\<lambda>c. if c = CHR 0x22 then [c, c] else [c]) s) @ [CHR 0x22]
      else s)"

fun join_fields :: "string list \<Rightarrow> string" where
  "join_fields [] = []"
| "join_fields [f] = f"
| "join_fields (f # g # fs) = f @ '','' @ join_fields (g # fs)"

definition csv_record :: "string \<Rightarrow> string list \<Rightarrow> string" where
  "csv_record nl fs =
     (if fs = [[]] then [CHR 0x22, CHR 0x22] else join_fields (map csv_field fs)) @ nl"

definition csv_header :: "string frame \<Rightarrow> string list" where
  "csv_header df = index_name df # map fst (columns df)"

definition csv_row :: "env \<Rightarrow> string frame \<Rightarrow> nat \<Rightarrow> string list" where
  "csv_row e df i =
     fmt_index e (index df ! i) # map (\<lambda>c. fmt_value e (fst c) (snd c ! i)) (columns df)"

definition csv_records :: "env \<Rightarrow> string frame \<Rightarrow> string list list" where
  "csv_records e df = csv_header df # map (csv_row e df) [0..<length (index df)]"

definition to_csv :: "env \<Rightarrow> string frame \<Rightarrow> string" where
  "to_csv e df = concat (map (csv_record (linesep e)) (csv_records e df))"

text \<open>
  \<^verbatim>\<open>str.encode('utf-8')\<close>. A character of the model is a code point below 256: below
  128 it is one byte, otherwise two.
\<close>

definition utf8_char :: "char \<Rightarrow> 8 word list" where
  "utf8_char c =
     (let n = (of_char c :: nat)
      in if n < 128 then [of_nat n]
         else [of_nat (192 + n div 64), of_nat (128 + n mod 64)])"

definition encode_utf8 :: "string \<Rightarrow> 8 word list" where
  "encode_utf8 s = concat (map utf8_char s)"

definition convert_df_to_csv :: "env \<Rightarrow> string frame \<Rightarrow> 8 word list" where
  "convert_df_to_csv e df = encode_utf8 (to_csv e df)"

text \<open>
  The reference the encoding is compared with: UTF-8 as the standard defines it, read
  back. A byte below \<open>0x80\<close> is the code point itself; a lead byte \<open>0xC2\<close> or \<open>0xC3\<close>
  with a continuation byte \<open>0x80\<close> to \<open>0xBF\<close> is a code point from 128 to 255; any
  other byte sequence holds no text of the model's characters.
\<close>

fun utf8_reference_decode :: "8 word list \<Rightarrow> string option" where
  "utf8_reference_decode [] = Some []"
| "utf8_reference_decode [b] =
     (if unat b < 128 then Some [char_of (unat b)] else None)"
| "utf8_reference_decode (b # b2 # bs) =
     (if unat b < 128
      then map_option ((#) (char_of (unat b))) (utf8_reference_decode (b2 # bs))
      else if 194 \<le> unat b \<and> unat b \<le> 195 \<and> 128 \<le> unat b2 \<and> unat b2 < 192
      then map_option ((#) (char_of ((unat b - 192) * 64 + (unat b2 - 128))))
             (utf8_reference_decode bs)
      else None)"

section \<open>Steps 2 and 3: the widget values\<close>

text \<open>
  Every widget returns a value on each run of the script; the record holds them under
  the script's variable names. The number inputs have a minimum of at least 1, so
  their values are naturals. \<open>columns_to_show\<close> is the value of the multiselect of
  line 73.
\<close>

record inputs =
  ticker :: string
  start_date :: date
  end_date :: date
  volume_flag :: bool
  sma_flag :: bool
  sma_periods :: nat
  bb_flag :: bool
  bb_periods :: nat
  bb_std :: nat
  rsi_flag :: bool
  rsi_periods :: nat
  rsi_upper :: nat
  rsi_lower :: nat
  columns_to_show :: "string list"

text \<open>The ranges the widgets of lines 35 to 58 and 73 enforce.\<close>

definition widget_ranges :: "directory \<Rightarrow> inputs \<Rightarrow> bool" where
  "widget_ranges dir inp =
     (ticker inp \<in> set (available_tickers dir) \<and>
      1 \<le> sma_periods inp \<and> sma_periods inp \<le> 50 \<and>
      1 \<le> bb_periods inp \<and> bb_periods inp \<le> 50 \<and>
      1 \<le> bb_std inp \<and> bb_std inp \<le> 4 \<and>
      1 \<le> rsi_periods inp \<and> rsi_periods inp \<le> 20 \<and>
      50 \<le> rsi_upper inp \<and> rsi_upper inp \<le> 90 \<and>
      10 \<le> rsi_lower inp \<and> rsi_lower inp \<le> 50)"

section \<open>What the page shows\<close>

datatype line = Line string "string option"

datatype trace =
    Candlestick "real list" "real list" "real list" "real list" string "date list"
  | Scatter "date list" series string string line
  | Bar "date list" "real list" string string

record layout =
  title :: string
  xaxis_title :: string
  yaxis_title :: string
  yaxis_autorange :: bool
  yaxis_fixedrange :: bool
  template :: string
  xaxis_rangeslider_visible :: bool
  dragmode :: string
  height :: nat
  width :: nat

text \<open>
  The figure is the object the script mutates: it is modelled by the calls made on it,
  in order. \<^verbatim>\<open>go.Figure()\<close> is the figure with no call.
\<close>

datatype fig_call =
    Add_trace trace
  | Add_hline nat line
  | Update_layout layout

type_synonym figure = "fig_call list"

fun traces :: "figure \<Rightarrow> trace list" where
  "traces [] = []"
| "traces (Add_trace t # cs) = t # traces cs"
| "traces (Add_hline y l # cs) = traces cs"
| "traces (Update_layout l # cs) = traces cs"

datatype ui =
    Sidebar_error string
  | Dataframe "string frame"
  | Download_button string "8 word list" string string
  | Page_error string
  | Plotly_chart figure "(string \<times> bool) list"

fun is_chart :: "ui \<Rightarrow> bool" where
  "is_chart (Plotly_chart f c) = True"
| "is_chart _ = False"

section \<open>Step 5: the plotting\<close>

text \<open>The decimal digits of a number, as an f-string prints it.\<close>

definition digit_char :: "nat \<Rightarrow> char" where
  "digit_char d = ''0123456789'' ! d"

fun str_nat :: "nat \<Rightarrow> string" where
  "str_nat n =
     (if n < 10 then [digit_char n]
      else str_nat (n div 10) @ [digit_char (n mod 10)])"

declare str_nat.simps [simp del]

text \<open>
  The calls each block of the \<^verbatim>\<open>else\<close> branch makes on the figure (lines 98 to
  106, 110 to 115, 120 to 126, 135 to 148 and 153 to 163), and then the blocks: each
  takes the figure and gives it back with the calls it made, and the exception it raised
  if it raised one.
\<close>

definition rsi_calls :: "inputs \<Rightarrow> string frame \<Rightarrow> series \<Rightarrow> fig_call list" where
  "rsi_calls inp df rsi =
     [Add_trace (Scatter (index df) rsi ''lines'' (''RSI '' @ str_nat (rsi_periods inp))
                   (Line ''green'' None)),
      Add_hline (rsi_upper inp) (Line ''red'' (Some ''dot'')),
      Add_hline (rsi_lower inp) (Line ''red'' (Some ''dot''))]"

definition volume_calls :: "string frame \<Rightarrow> real list \<Rightarrow> fig_call list" where
  "volume_calls df v =
     [Add_trace (Bar (index df) v ''Volume'' ''rgba(255, 153, 51, 0.6)'')]"

definition sma_calls :: "inputs \<Rightarrow> string frame \<Rightarrow> real list \<Rightarrow> fig_call list" where
  "sma_calls inp df cl =
     [Add_trace (Scatter (index df) (sma cl (sma_periods inp)) ''lines''
                   (''SMA '' @ str_nat (sma_periods inp)) (Line ''blue'' None))]"

definition bb_calls :: "inputs \<Rightarrow> string frame \<Rightarrow> real list \<Rightarrow> fig_call list" where
  "bb_calls inp df cl =
     [Add_trace (Scatter (index df) (upper_band cl (bb_periods inp) (real (bb_std inp)))
                   ''lines'' ''Upper Bollinger Band'' (Line ''red'' (Some ''dash''))),
      Add_trace (Scatter (index df) (lower_band cl (bb_periods inp) (real (bb_std inp)))
                   ''lines'' ''Lower Bollinger Band'' (Line ''red'' (Some ''dash'')))]"

definition layout_calls :: "string \<Rightarrow> fig_call list" where
  "layout_calls company =
     [Update_layout
        \<lparr>title = company @ [CHR 0x27] @ ''s Stock Price'',
         xaxis_title = ''Date'', yaxis_title = ''Price'',
         yaxis_autorange = True, yaxis_fixedrange = False,
         template = ''plotly_dark'', xaxis_rangeslider_visible = True,
         dragmode = ''pan'', height = 500, width = 2000\<rparr>]"

definition candlestick_step :: "string frame \<Rightarrow> figure \<Rightarrow> figure \<times> error option" where
  "candlestick_step df fig =
     (case getitem df ''Open'' of
        Inl e \<Rightarrow> (fig, Some e)
      | Inr op \<Rightarrow>
     (case getitem df ''Close'' of
        Inl e \<Rightarrow> (fig, Some e)
      | Inr cl \<Rightarrow>
     (case getitem df ''High'' of
        Inl e \<Rightarrow> (fig, Some e)
      | Inr hi \<Rightarrow>
     (case getitem df ''Low'' of
        Inl e \<Rightarrow> (fig, Some e)
      | Inr lo \<Rightarrow>
          (fig @ [Add_trace (Candlestick op cl hi lo ''Price'' (index df))], None)))))"

definition rsi_step :: "inputs \<Rightarrow> string frame \<Rightarrow> figure \<Rightarrow> figure \<times> error option" where
  "rsi_step inp df fig =
     (if rsi_flag inp then
        (case getitem df ''Close'' of
           Inl e \<Rightarrow> (fig, Some e)
         | Inr cl \<Rightarrow>
        (case RSI cl (rsi_periods inp) of
           Inl e \<Rightarrow> (fig, Some e)
         | Inr rsi \<Rightarrow> (fig @ rsi_calls inp df rsi, None)))
      else (fig, None))"

definition volume_step :: "inputs \<Rightarrow> string frame \<Rightarrow> figure \<Rightarrow> figure \<times> error option" where
  "volume_step inp df fig =
     (if volume_flag inp then
        (case getitem df ''Volume'' of
           Inl e \<Rightarrow> (fig, Some e)
         | Inr v \<Rightarrow> (fig @ volume_calls df v, None))
      else (fig, None))"

definition sma_step :: "inputs \<Rightarrow> string frame \<Rightarrow> figure \<Rightarrow> figure \<times> error option" where
  "sma_step inp df fig =
     (if sma_flag inp then
        (case getitem df ''Close'' of
           Inl e \<Rightarrow> (fig, Some e)
         | Inr cl \<Rightarrow> (fig @ sma_calls inp df cl, None))
      else (fig, None))"

definition bb_step :: "inputs \<Rightarrow> string frame \<Rightarrow> figure \<Rightarrow> figure \<times> error option" where
  "bb_step inp df fig =
     (if bb_flag inp then
        (case getitem df ''Close'' of
           Inl e \<Rightarrow> (fig, Some e)
         | Inr cl \<Rightarrow> (fig @ bb_calls inp df cl, None))
      else (fig, None))"

definition layout_step :: "directory \<Rightarrow> inputs \<Rightarrow> figure \<Rightarrow> figure \<times> error option" where
  "layout_step dir inp fig =
     (case tickers_companies_dict dir (ticker inp) of
        None \<Rightarrow> (fig, Some (KeyError (ticker inp)))
      | Some company \<Rightarrow> (fig @ layout_calls company, None))"

text \<open>One block after the other; an exception ends the run with the figure as it is.\<close>

definition and_then ::
  "(figure \<Rightarrow> figure \<times> error option) \<Rightarrow> (figure \<Rightarrow> figure \<times> error option) \<Rightarrow>
   figure \<Rightarrow> figure \<times> error option" where
  "and_then f g fig =
     (case f fig of (fig', None) \<Rightarrow> g fig' | (fig', Some e) \<Rightarrow> (fig', Some e))"

definition build_chart :: "directory \<Rightarrow> inputs \<Rightarrow> string frame \<Rightarrow> figure \<Rightarrow> figure \<times> error option" where
  "build_chart dir inp df =
     and_then (candlestick_step df)
    (and_then (rsi_step inp df)
    (and_then (volume_step inp df)
    (and_then (sma_step inp df)
    (and_then (bb_step inp df)
              (layout_step dir inp)))))"

text \<open>Lines 82 to 166. The result: what is shown, the figure, the exception if any.\<close>

definition plotting ::
  "directory \<Rightarrow> inputs \<Rightarrow> string frame \<Rightarrow> ui list \<times> figure \<times> error option" where
  "plotting dir inp df =
     (let fig = []
      in if empty df
         then ([Page_error ''No Data Available for the Selected Stock and Date range''],
               fig, None)
         else (case build_chart dir inp df fig of
                 (fig', Some e) \<Rightarrow> ([], fig', Some e)
               | (fig', None) \<Rightarrow> ([Plotly_chart fig' [(''scrollZoom'', True)]], fig', None)))"

section \<open>Steps 2 to 5: the page\<close>

text \<open>
  One run of the script from line 35 on, for a loaded ticker directory. \<open>shown\<close> is
  what the run puts on the page, in order (the input widgets and the fixed headers and
  manual text are left out); \<open>queries\<close> the calls of \<^verbatim>\<open>load_data\<close>; \<open>fig\<close> the figure
  when the run ends; \<open>fault\<close> the uncaught exception, if the run ends with one.
\<close>

record run =
  shown :: "ui list"
  queries :: "(string \<times> date \<times> date) list"
  fig :: figure
  fault :: "error option"

definition date_check :: "inputs \<Rightarrow> ui list" where
  "date_check inp =
     (if date_gt (start_date inp) (end_date inp)
      then [Sidebar_error ''The End Date must fall after the Start Date'']
      else [])"

definition download_button :: "env \<Rightarrow> inputs \<Rightarrow> string frame \<Rightarrow> ui" where
  "download_button e inp sel =
     (let csv_file = convert_df_to_csv e sel
      in Download_button ''Download selected as CSV'' csv_file
           (ticker inp @ '' Daily Stock Prices'') ''text/csv'')"

definition page :: "env \<Rightarrow> directory \<Rightarrow> inputs \<Rightarrow> run" where
  "page e dir inp =
     (let warn = date_check inp;
          q = [(ticker inp, start_date inp, end_date inp)];
          df = load_data e (ticker inp) (start_date inp) (end_date inp)
      in case getitem_list df (columns_to_show inp) of
           Inl err \<Rightarrow> \<lparr>shown = warn, queries = q, fig = [], fault = Some err\<rparr>
         | Inr sel \<Rightarrow>
             (case plotting dir inp df of
                (out, f, err) \<Rightarrow>
                  \<lparr>shown = warn @ [Dataframe sel, download_button e inp sel] @ out,
                   queries = q, fig = f, fault = err\<rparr>))"

text \<open>The whole script: line 34 loads the directory first.\<close>

definition script ::
  "(string \<times> string) list \<Rightarrow> (request \<Rightarrow> response) \<Rightarrow> env \<Rightarrow> (directory \<Rightarrow> inputs) \<Rightarrow>
   run" where
  "script default_headers send e widgets =
     (case get_sp500_components default_headers send of
        Inl err \<Rightarrow> \<lparr>shown = [], queries = [], fig = [], fault = Some err\<rparr>
      | Inr dir \<Rightarrow> page e dir (widgets dir))"

section \<open>Well-formed inputs\<close>

text \<open>
  The price series of the data model: a well-formed table with the columns Open, High,
  Low, Close and Volume. The directory of lines 18 and 19: every ticker is a key of the
  dictionary. The multiselect of line 73 offers the columns of the table.
\<close>

definition price_series :: "string frame \<Rightarrow> bool" where
  "price_series df =
     (wf_frame df \<and>
      list_all (\<lambda>c. c \<in> set (columns_to_list df))
        [''Open'', ''High'', ''Low'', ''Close'', ''Volume''])"

definition wf_directory :: "directory \<Rightarrow> bool" where
  "wf_directory dir =
     list_all (\<lambda>t. tickers_companies_dict dir t \<noteq> None) (available_tickers dir)"

definition multiselect_ok :: "string frame \<Rightarrow> inputs \<Rightarrow> bool" where
  "multiselect_ok df inp =
     list_all (\<lambda>c. c \<in> set (columns_to_list df)) (columns_to_show inp)"

section \<open>Reading a figure\<close>

text \<open>The kind and the name of a call, to state the order of the calls.\<close>

fun describe :: "fig_call \<Rightarrow> string \<times> string" where
  "describe (Add_trace (Candlestick op cl hi lo name x)) = (''Candlestick'', name)"
| "describe (Add_trace (Scatter x y mode name l)) = (''Scatter'', name)"
| "describe (Add_trace (Bar x y name c)) = (''Bar'', name)"
| "describe (Add_hline y l) = (''hline'', str_nat y)"
| "describe (Update_layout l) = (''layout'', title l)"

section \<open>An example run\<close>

definition sample_frame :: "string \<Rightarrow> (string \<times> string) frame" where
  "sample_frame s =
     \<lparr>index_name = ''Date'',
      index = [Date 2023 1 3, Date 2023 1 4, Date 2023 1 5],
      columns = [((''Close'', s), [10, 12, 11]), ((''High'', s), [11, 13, 12]),
                 ((''Low'', s), [9, 10, 10]), ((''Open'', s), [10, 11, 12]),
                 ((''Volume'', s), [100, 200, 150])]\<rparr>"

definition no_rows_frame :: "string \<Rightarrow> (string \<times> string) frame" where
  "no_rows_frame s =
     \<lparr>index_name = ''Date'', index = [],
      columns = [((''Close'', s), []), ((''High'', s), []), ((''Low'', s), []),
                 ((''Open'', s), []), ((''Volume'', s), [])]\<rparr>"

definition pad2 :: "nat \<Rightarrow> string" where
  "pad2 n = (if n < 10 then ''0'' @ str_nat n else str_nat n)"

definition sample_env :: env where
  "sample_env =
     \<lparr>yf_download = (\<lambda>s a b. if date_gt a b then no_rows_frame s else sample_frame s),
      fmt_value = (\<lambda>c x. if c = ''Volume'' then str_nat (nat \<lfloor>x\<rfloor>)
                         else str_nat (nat \<lfloor>x\<rfloor>) @ ''.0''),
      fmt_index = (\<lambda>d. str_nat (nat (year d)) @ ''-'' @ pad2 (nat (month d)) @ ''-'' @
                        pad2 (nat (day d))),
      linesep = [CHR 0x0A]\<rparr>"

definition sample_directory :: directory where
  "sample_directory =
     \<lparr>available_tickers = [''MMM'', ''AAPL''],
      tickers_companies_dict = dict [(''MMM'', ''3M''), (''AAPL'', ''Apple Inc.'')]\<rparr>"

definition sample_inputs :: inputs where
  "sample_inputs =
     \<lparr>ticker = ''AAPL'', start_date = Date 2023 1 1, end_date = Date 2023 1 10,
      volume_flag = True, sma_flag = True, sma_periods = 2,
      bb_flag = True, bb_periods = 2, bb_std = 2,
      rsi_flag = True, rsi_periods = 2, rsi_upper = 70, rsi_lower = 30,
      columns_to_show = [''Close'', ''Volume'']\<rparr>"

text \<open>
  The same inputs with the period the widget of line 56 starts with: its minimum, 1.
\<close>

definition default_period_inputs :: inputs where
  "default_period_inputs = sample_inputs\<lparr>rsi_periods := 1\<rparr>"

definition late_start_inputs :: inputs where
  "late_start_inputs =
     sample_inputs\<lparr>start_date := Date 2023 6 1, end_date := Date 2023 1 1\<rparr>"

definition sample_table :: "string frame" where
  "sample_table = load_data sample_env ''AAPL'' (Date 2023 1 1) (Date 2023 1 10)"

definition late_start_table :: "string frame" where
  "late_start_table = load_data sample_env ''AAPL'' (Date 2023 6 1) (Date 2023 1 1)"

section \<open>Shape of the rolling series\<close>

lemma length_rolling_mean [simp]: "length (rolling_mean w xs) = length xs"
  by (simp add: rolling_mean_def)

lemma length_rolling_std [simp]: "length (rolling_std w xs) = length xs"
  by (simp add: rolling_std_def)

lemma nth_rolling_mean:
  "i < length xs \<Longrightarrow>
   rolling_mean w xs ! i =
     (if w = 0 \<or> Suc i < w then None else Some (mean (window_at w xs i)))"
  by (simp add: rolling_mean_def)

lemma nth_rolling_std:
  "i < length xs \<Longrightarrow>
   rolling_std w xs ! i =
     (if w < 2 \<or> Suc i < w then None else Some (sqrt (var_ddof1 (window_at w xs i))))"
  by (simp add: rolling_std_def)

lemma length_upper_band [simp]: "length (upper_band xs w k) = length xs"
  by (simp add: upper_band_def series_add_def series_scale_def)

lemma length_lower_band [simp]: "length (lower_band xs w k) = length xs"
  by (simp add: lower_band_def series_sub_def series_scale_def)

lemma nth_upper_band:
  "i < length xs \<Longrightarrow>
   upper_band xs w k ! i =
     (if w < 2 \<or> Suc i < w then None
      else Some (mean (window_at w xs i) + k * sqrt (var_ddof1 (window_at w xs i))))"
  by (auto simp add: upper_band_def series_add_def series_scale_def
        nth_rolling_mean nth_rolling_std)

lemma nth_lower_band:
  "i < length xs \<Longrightarrow>
   lower_band xs w k ! i =
     (if w < 2 \<or> Suc i < w then None
      else Some (mean (window_at w xs i) - k * sqrt (var_ddof1 (window_at w xs i))))"
  by (auto simp add: lower_band_def series_sub_def series_scale_def
        nth_rolling_mean nth_rolling_std)

lemma var_ddof1_nonneg: "2 \<le> length xs \<Longrightarrow> 0 \<le> var_ddof1 xs"
  unfolding var_ddof1_def
  by (intro divide_nonneg_nonneg sum_list_nonneg) auto

lemma length_window_at:
  "0 < w \<Longrightarrow> w \<le> Suc i \<Longrightarrow> i < length xs \<Longrightarrow> length (window_at w xs i) = w"
  by (simp add: window_at_def)

section \<open>Bounds of the relative strength index\<close>

lemma rsi_value_bounds:
  assumes "0 \<le> g" "0 \<le> l"
  shows "0 \<le> rsi_value g l \<and> rsi_value g l \<le> 100"
proof (cases "TA_IS_ZERO (g + l)")
  case True
  then show ?thesis by (simp add: rsi_value_def)
next
  case False
  with assms have pos: "0 < g + l"
    by (auto simp add: TA_IS_ZERO_def)
  have "g / (g + l) \<le> 1" using assms pos by (simp add: divide_le_eq)
  moreover have "0 \<le> g / (g + l)" using assms pos by simp
  ultimately show ?thesis using False by (simp add: rsi_value_def)
qed

lemma rsi_seed_nonneg:
  "0 \<le> g \<Longrightarrow> 0 \<le> l \<Longrightarrow> rsi_seed pv g l xs = (pv', g', l') \<Longrightarrow> 0 \<le> g' \<and> 0 \<le> l'"
proof (induction xs arbitrary: pv g l)
  case Nil
  then show ?case by simp
next
  case (Cons x xs)
  show ?case
  proof (cases "x - pv < 0")
    case True
    with Cons.prems have "rsi_seed x g (l - (x - pv)) xs = (pv', g', l')" by (simp add: Let_def)
    moreover have "0 \<le> l - (x - pv)" using True Cons.prems(2) by simp
    ultimately show ?thesis using Cons.IH Cons.prems(1) by blast
  next
    case False
    with Cons.prems have "rsi_seed x (g + (x - pv)) l xs = (pv', g', l')" by (simp add: Let_def)
    moreover have "0 \<le> g + (x - pv)" using False Cons.prems(1) by simp
    ultimately show ?thesis using Cons.IH Cons.prems(2) by blast
  qed
qed

lemma rsi_loop_bounds:
  "1 \<le> n \<Longrightarrow> 0 \<le> g \<Longrightarrow> 0 \<le> l \<Longrightarrow> v \<in> set (rsi_loop n pv g l xs) \<Longrightarrow> 0 \<le> v \<and> v \<le> 100"
proof (induction xs arbitrary: pv g l)
  case Nil
  then show ?case by simp
next
  case (Cons x xs)
  define d where "d = x - pv"
  define l3 where "l3 = (if d < 0 then l * (real n - 1) - d else l * (real n - 1)) / real n"
  define g3 where "g3 = (if d < 0 then g * (real n - 1) else g * (real n - 1) + d) / real n"
  have n1: "0 \<le> real n - 1" using Cons.prems(1) by simp
  have "0 \<le> l * (real n - 1)" "0 \<le> g * (real n - 1)"
    using Cons.prems(2,3) n1 by simp_all
  then have l3: "0 \<le> l3" and g3: "0 \<le> g3"
    unfolding l3_def g3_def by (auto intro!: divide_nonneg_nonneg)
  have unfold: "rsi_loop n pv g l (x # xs) = rsi_value g3 l3 # rsi_loop n x g3 l3 xs"
    by (simp add: Let_def d_def l3_def g3_def)
  from Cons.prems(4) unfold have "v = rsi_value g3 l3 \<or> v \<in> set (rsi_loop n x g3 l3 xs)"
    by simp
  then show ?case
  proof
    assume "v = rsi_value g3 l3"
    then show ?thesis using rsi_value_bounds [OF g3 l3] by simp
  next
    assume "v \<in> set (rsi_loop n x g3 l3 xs)"
    then show ?thesis using Cons.IH [OF Cons.prems(1) g3 l3] by simp
  qed
qed

lemma length_rsi_loop: "length (rsi_loop n pv g l xs) = length xs"
  by (induction xs arbitrary: pv g l) (simp_all add: Let_def)

lemma RSI_short:
  "2 \<le> w \<Longrightarrow> w \<le> 100000 \<Longrightarrow> length xs \<le> w \<Longrightarrow> RSI xs w = Inr (replicate (length xs) None)"
  by (simp add: RSI_def)

lemma RSI_long:
  assumes "2 \<le> w" "w \<le> 100000" "w < length xs"
  shows "\<exists>vs. RSI xs w = Inr (replicate w None @ map Some vs) \<and> length vs = length xs - w
           \<and> (\<forall>v \<in> set vs. 0 \<le> v \<and> v \<le> 100)"
proof -
  obtain pv g l where seed: "rsi_seed (hd xs) 0 0 (take w (tl xs)) = (pv, g, l)"
    by (metis prod_cases3)
  have gl: "0 \<le> g \<and> 0 \<le> l" using rsi_seed_nonneg [OF _ _ seed] by simp
  define g0 where "g0 = g / real w"
  define l0 where "l0 = l / real w"
  have g0: "0 \<le> g0" and l0: "0 \<le> l0" using gl by (simp_all add: g0_def l0_def)
  define vs where "vs = rsi_value g0 l0 # rsi_loop w pv g0 l0 (drop (Suc w) xs)"
  have "RSI xs w = Inr (replicate w None @ map Some vs)"
    using assms seed by (simp add: RSI_def Let_def vs_def g0_def l0_def)
  moreover have "length vs = length xs - w"
    using assms by (simp add: vs_def length_rsi_loop)
  moreover have "\<forall>v \<in> set vs. 0 \<le> v \<and> v \<le> 100"
  proof
    fix v assume "v \<in> set vs"
    then have "v = rsi_value g0 l0 \<or> v \<in> set (rsi_loop w pv g0 l0 (drop (Suc w) xs))"
      by (simp add: vs_def)
    moreover have "1 \<le> w" using assms(1) by simp
    ultimately show "0 \<le> v \<and> v \<le> 100"
      using rsi_value_bounds [OF g0 l0] rsi_loop_bounds [OF _ g0 l0] by blast
  qed
  ultimately show ?thesis by blast
qed

section \<open>Claims about the indicators\<close>

text \<open>
  C3. For every close series, window and multiplier \<open>k > 0\<close>, at every position where
  the Bollinger output is defined, the upper band is the rolling mean plus \<open>k\<close> times
  the rolling standard deviation, the lower band is the mean minus \<open>k\<close> times it, and
  upper band \<open>\<ge>\<close> rolling mean \<open>\<ge>\<close> lower band.
\<close>

theorem bollinger_bands_ordered:
  assumes "0 < k" and "i < length closes" and "upper_band closes w k ! i = Some u"
  shows "\<exists>m s. rolling_mean w closes ! i = Some m \<and> rolling_std w closes ! i = Some s \<and>
           u = m + k * s \<and> lower_band closes w k ! i = Some (m - k * s) \<and>
           m - k * s \<le> m \<and> m \<le> u"
proof -
  from assms(2,3) have w: "\<not> (w < 2 \<or> Suc i < w)"
    by (auto simp add: nth_upper_band split: if_splits)
  define m where "m = mean (window_at w closes i)"
  define s where "s = sqrt (var_ddof1 (window_at w closes i))"
  have len: "length (window_at w closes i) = w"
    using w assms(2) by (intro length_window_at) simp_all
  have s0: "0 \<le> s"
    unfolding s_def using var_ddof1_nonneg [of "window_at w closes i"] len w by simp
  have ks: "0 \<le> k * s" using assms(1) s0 by simp
  have "rolling_mean w closes ! i = Some m"
    using w assms(2) by (simp add: nth_rolling_mean m_def)
  moreover have "rolling_std w closes ! i = Some s"
    using w assms(2) by (simp add: nth_rolling_std s_def)
  moreover have u: "u = m + k * s"
    using w assms(2,3) by (simp add: nth_upper_band m_def s_def)
  moreover have "lower_band closes w k ! i = Some (m - k * s)"
    using w assms(2) by (simp add: nth_lower_band m_def s_def)
  moreover have "m - k * s \<le> m" using ks by simp
  moreover have "m \<le> u" using ks u by simp
  ultimately show ?thesis by blast
qed

theorem bollinger_bands_ordered_witness:
  "(0::real) < 1 \<and> (1::nat) < length [1, 3 :: real] \<and>
   upper_band [1, 3] 2 1 ! 1 = Some (2 + sqrt 2) \<and>
   (\<exists>m s. rolling_mean 2 [1, 3] ! 1 = Some m \<and> rolling_std 2 [1, 3] ! 1 = Some s \<and>
      2 + sqrt 2 = m + 1 * s \<and> lower_band [1, 3] 2 1 ! 1 = Some (m - 1 * s) \<and>
      m - 1 * s \<le> m \<and> m \<le> 2 + sqrt 2)"
proof -
  have h1: "(0::real) < 1" by simp
  have h2: "(1::nat) < length [1, 3 :: real]" by simp
  have h3: "upper_band [1, 3] 2 1 ! 1 = Some (2 + sqrt 2)"
    by (simp add: nth_upper_band window_at_def mean_def var_ddof1_def power2_eq_square)
  from bollinger_bands_ordered [OF h1 h2 h3] h1 h2 h3 show ?thesis by blast
qed

text \<open>
  C4. For every close series and every valid window (2 to 100000), the call of the
  relative strength index returns a series as long as the input, and every defined
  position of it lies in the closed interval from 0 to 100.
\<close>

theorem rsi_within_0_100:
  assumes "2 \<le> w" and "w \<le> 100000"
  shows "\<exists>out. RSI closes w = Inr out \<and> length out = length closes \<and>
           (\<forall>i < length out. \<forall>v. out ! i = Some v \<longrightarrow> 0 \<le> v \<and> v \<le> 100)"
proof (cases "length closes \<le> w")
  case True
  then have "RSI closes w = Inr (replicate (length closes) None)"
    using assms by (simp add: RSI_short)
  then show ?thesis by simp
next
  case False
  then have "w < length closes" by simp
  from RSI_long [OF assms this] obtain vs where
    r: "RSI closes w = Inr (replicate w None @ map Some vs)" and
    l: "length vs = length closes - w" and
    b: "\<forall>v \<in> set vs. 0 \<le> v \<and> v \<le> 100" by blast
  have "\<forall>i < length (replicate w None @ map Some vs). \<forall>v.
          (replicate w None @ map Some vs) ! i = Some v \<longrightarrow> 0 \<le> v \<and> v \<le> 100"
  proof (intro allI impI)
    fix i v
    assume i: "i < length (replicate w None @ map Some vs)"
      and v: "(replicate w None @ map Some vs) ! i = Some v"
    show "0 \<le> v \<and> v \<le> 100"
    proof (cases "i < w")
      case True
      then show ?thesis using v by (simp add: nth_append)
    next
      case False
      then have "i - w < length vs" using i by simp
      moreover have "v = vs ! (i - w)" using v False i by (simp add: nth_append)
      ultimately show ?thesis using b by simp
    qed
  qed
  moreover have "length (replicate w None @ map Some vs) = length closes"
    using l False by simp
  ultimately show ?thesis using r by blast
qed

theorem rsi_within_0_100_witness:
  "(2::nat) \<le> 2 \<and> (2::nat) \<le> 100000 \<and>
   (\<exists>out. RSI [1, 2, 3, 2, 5, 4] 2 = Inr out \<and> length out = length [1, 2, 3, 2, 5, 4 :: real] \<and>
      (\<forall>i < length out. \<forall>v. out ! i = Some v \<longrightarrow> 0 \<le> v \<and> v \<le> 100))"
proof -
  have h1: "(2::nat) \<le> 2" by simp
  have h2: "(2::nat) \<le> 100000" by simp
  from rsi_within_0_100 [OF h1 h2, of "[1, 2, 3, 2, 5, 4]"] h1 h2 show ?thesis by blast
qed

section \<open>Tables and directories\<close>

lemma getitem_present:
  assumes "c \<in> set (columns_to_list df)"
  shows "\<exists>v. getitem df c = Inr v \<and> (c, v) \<in> set (columns df)"
proof -
  from assms have "c \<in> fst ` set (columns df)" by (simp add: columns_to_list_def)
  then obtain v where v: "map_of (columns df) c = Some v"
    by (metis domD dom_map_of_conv_image_fst)
  then have "(c, v) \<in> set (columns df)" by (rule map_of_SomeD)
  with v show ?thesis by (simp add: getitem_def)
qed

lemma wf_frame_length:
  "wf_frame df \<Longrightarrow> (c, v) \<in> set (columns df) \<Longrightarrow> length v = length (index df)"
  by (auto simp add: wf_frame_def list_all_iff)

lemma price_series_columns:
  assumes "price_series df"
  shows "\<exists>op cl hi lo vol.
           getitem df ''Open'' = Inr op \<and> getitem df ''Close'' = Inr cl \<and>
           getitem df ''High'' = Inr hi \<and> getitem df ''Low'' = Inr lo \<and>
           getitem df ''Volume'' = Inr vol \<and> length cl = length (index df)"
proof -
  from assms have wf: "wf_frame df"
    and o: "''Open'' \<in> set (columns_to_list df)"
    and h: "''High'' \<in> set (columns_to_list df)"
    and l: "''Low'' \<in> set (columns_to_list df)"
    and c: "''Close'' \<in> set (columns_to_list df)"
    and v: "''Volume'' \<in> set (columns_to_list df)"
    by (simp_all add: price_series_def)
  from getitem_present [OF c] obtain cl where
    cl: "getitem df ''Close'' = Inr cl" "(''Close'', cl) \<in> set (columns df)" by blast
  from wf_frame_length [OF wf cl(2)] have "length cl = length (index df)" .
  with cl(1) getitem_present [OF o] getitem_present [OF h] getitem_present [OF l]
    getitem_present [OF v]
  show ?thesis by blast
qed

lemma directory_lookup:
  assumes "wf_directory dir" and "t \<in> set (available_tickers dir)"
  shows "\<exists>company. tickers_companies_dict dir t = Some company"
  using assms by (auto simp add: wf_directory_def list_all_iff)

lemma dict_of_zip:
  assumes "length ks = length vs" and "k \<in> set ks"
  shows "dict (zip ks vs) k \<noteq> None"
proof -
  from assms have "k \<in> fst ` set (rev (zip ks vs))"
    by (simp add: set_rev) (metis map_fst_zip set_map)
  then show ?thesis
    unfolding dict_def by (metis domIff dom_map_of_conv_image_fst)
qed

lemma directory_of_table:
  assumes "length tickers = length security"
  shows "wf_directory \<lparr>available_tickers = tickers,
                         tickers_companies_dict = dict (zip tickers security)\<rparr>"
  using dict_of_zip [OF assms] by (simp add: wf_directory_def list_all_iff)

lemma select_columns_present:
  "list_all (\<lambda>c. c \<in> fst ` set cols) cs \<Longrightarrow>
   \<exists>r. select_columns cols cs = Inr r \<and> map fst r = cs \<and>
       (\<forall>p \<in> set r. map_of cols (fst p) = Some (snd p))"
proof (induction cs)
  case Nil
  then show ?case by simp
next
  case (Cons c cs)
  then obtain r where r: "select_columns cols cs = Inr r" "map fst r = cs"
    "\<forall>p \<in> set r. map_of cols (fst p) = Some (snd p)" by auto
  from Cons.prems have "c \<in> fst ` set cols" by simp
  then obtain v where v: "map_of cols c = Some v"
    by (metis domD dom_map_of_conv_image_fst)
  with r show ?case by simp
qed

lemma getitem_list_present:
  assumes "multiselect_ok df inp"
  shows "\<exists>r. getitem_list df (columns_to_show inp) =
              Inr \<lparr>index_name = index_name df, index = index df, columns = r\<rparr> \<and>
             map fst r = columns_to_show inp \<and>
             (\<forall>p \<in> set r. map_of (columns df) (fst p) = Some (snd p))"
proof -
  from assms have "list_all (\<lambda>c. c \<in> fst ` set (columns df)) (columns_to_show inp)"
    by (simp add: multiselect_ok_def columns_to_list_def)
  from select_columns_present [OF this] show ?thesis
    by (auto simp add: getitem_list_def)
qed

section \<open>The chart\<close>

lemma build_chart_ok:
  assumes "getitem df ''Open'' = Inr op" and "getitem df ''Close'' = Inr cl"
    and "getitem df ''High'' = Inr hi" and "getitem df ''Low'' = Inr lo"
    and "getitem df ''Volume'' = Inr vol"
    and "rsi_flag inp \<longrightarrow> RSI cl (rsi_periods inp) = Inr rsi"
    and "tickers_companies_dict dir (ticker inp) = Some company"
  shows "build_chart dir inp df f0 =
           (f0 @ [Add_trace (Candlestick op cl hi lo ''Price'' (index df))] @
            (if rsi_flag inp then rsi_calls inp df rsi else []) @
            (if volume_flag inp then volume_calls df vol else []) @
            (if sma_flag inp then sma_calls inp df cl else []) @
            (if bb_flag inp then bb_calls inp df cl else []) @
            layout_calls company, None)"
  using assms
  by (simp add: build_chart_def and_then_def candlestick_step_def rsi_step_def
      volume_step_def sma_step_def bb_step_def layout_step_def)

lemma and_then_extends:
  assumes g: "\<forall>f. \<exists>r e. g f = (f @ r, e)" and h: "\<forall>f. \<exists>r e. h f = (f @ r, e)"
  shows "\<forall>f. \<exists>r e. and_then g h f = (f @ r, e)"
proof
  fix f
  from g obtain r e where ge: "g f = (f @ r, e)" by blast
  show "\<exists>r e. and_then g h f = (f @ r, e)"
  proof (cases e)
    case None
    from h obtain r' e' where "h (f @ r) = ((f @ r) @ r', e')" by blast
    with ge None show ?thesis by (simp add: and_then_def)
  next
    case (Some x)
    with ge show ?thesis by (simp add: and_then_def)
  qed
qed

lemma steps_extend:
  "\<forall>f. \<exists>r e. rsi_step inp df f = (f @ r, e)"
  "\<forall>f. \<exists>r e. volume_step inp df f = (f @ r, e)"
  "\<forall>f. \<exists>r e. sma_step inp df f = (f @ r, e)"
  "\<forall>f. \<exists>r e. bb_step inp df f = (f @ r, e)"
  "\<forall>f. \<exists>r e. layout_step dir inp f = (f @ r, e)"
  by (auto simp add: rsi_step_def volume_step_def sma_step_def bb_step_def
      layout_step_def split: sum.splits option.splits)

lemma build_chart_candlestick_first:
  assumes "getitem df ''Open'' = Inr op" and "getitem df ''Close'' = Inr cl"
    and "getitem df ''High'' = Inr hi" and "getitem df ''Low'' = Inr lo"
  shows "\<exists>rest e. build_chart dir inp df f0 =
           (f0 @ Add_trace (Candlestick op cl hi lo ''Price'' (index df)) # rest, e)"
proof -
  define tail where "tail = and_then (rsi_step inp df) (and_then (volume_step inp df)
    (and_then (sma_step inp df) (and_then (bb_step inp df) (layout_step dir inp))))"
  have "\<forall>f. \<exists>r e. tail f = (f @ r, e)"
    unfolding tail_def by (intro and_then_extends steps_extend)
  then obtain r e where
    "tail (f0 @ [Add_trace (Candlestick op cl hi lo ''Price'' (index df))]) =
       ((f0 @ [Add_trace (Candlestick op cl hi lo ''Price'' (index df))]) @ r, e)"
    by blast
  moreover have "build_chart dir inp df f0 =
      tail (f0 @ [Add_trace (Candlestick op cl hi lo ''Price'' (index df))])"
    using assms by (simp add: build_chart_def tail_def and_then_def [of "candlestick_step df"]
        candlestick_step_def)
  ultimately show ?thesis by simp
qed

section \<open>The page\<close>

lemma plotting_empty:
  "empty df \<Longrightarrow>
   plotting dir inp df =
     ([Page_error ''No Data Available for the Selected Stock and Date range''], [], None)"
  by (simp add: plotting_def)

lemma plotting_nonempty:
  "\<not> empty df \<Longrightarrow>
   plotting dir inp df =
     (case build_chart dir inp df [] of
        (f, Some e) \<Rightarrow> ([], f, Some e)
      | (f, None) \<Rightarrow> ([Plotly_chart f [(''scrollZoom'', True)]], f, None))"
  by (simp add: plotting_def)

lemma page_unfold:
  assumes "df = load_data e (ticker inp) (start_date inp) (end_date inp)"
    and "getitem_list df (columns_to_show inp) = Inr sel"
  shows "page e dir inp =
           \<lparr>shown = date_check inp @ [Dataframe sel, download_button e inp sel] @
                    fst (plotting dir inp df),
            queries = [(ticker inp, start_date inp, end_date inp)],
            fig = fst (snd (plotting dir inp df)),
            fault = snd (snd (plotting dir inp df))\<rparr>"
  using assms by (simp add: page_def Let_def split: prod.splits)

lemma sma_short: "length xs < w \<Longrightarrow> sma xs w = replicate (length xs) None"
  by (auto simp add: sma_def list_eq_iff_nth_eq nth_rolling_mean)

lemma upper_band_short: "length xs < w \<Longrightarrow> upper_band xs w k = replicate (length xs) None"
  by (auto simp add: list_eq_iff_nth_eq nth_upper_band)

lemma lower_band_short: "length xs < w \<Longrightarrow> lower_band xs w k = replicate (length xs) None"
  by (auto simp add: list_eq_iff_nth_eq nth_lower_band)

lemma traces_append [simp]: "traces (f @ g) = traces f @ traces g"
  by (induction f rule: traces.induct) simp_all

section \<open>Shape of the indicator series\<close>

lemma sma_shape:
  "1 \<le> w \<Longrightarrow> i < length xs \<Longrightarrow> (sma xs w ! i = None) = (i < w - 1)"
  by (auto simp add: sma_def nth_rolling_mean)

lemma upper_band_shape:
  "2 \<le> w \<Longrightarrow> i < length xs \<Longrightarrow> (upper_band xs w k ! i = None) = (i < w - 1)"
  by (auto simp add: nth_upper_band)

lemma lower_band_shape:
  "2 \<le> w \<Longrightarrow> i < length xs \<Longrightarrow> (lower_band xs w k ! i = None) = (i < w - 1)"
  by (auto simp add: nth_lower_band)

lemma RSI_shape:
  assumes "2 \<le> w" and "w \<le> 100000"
  shows "\<exists>out. RSI xs w = Inr out \<and> length out = length xs \<and>
           (\<forall>i < length xs. (out ! i = None) = (i < w))"
proof (cases "length xs \<le> w")
  case True
  then have "RSI xs w = Inr (replicate (length xs) None)"
    using assms by (simp add: RSI_short)
  with True show ?thesis by simp
next
  case False
  then have "w < length xs" by simp
  from RSI_long [OF assms this] obtain vs where
    r: "RSI xs w = Inr (replicate w None @ map Some vs)" and
    l: "length vs = length xs - w" by blast
  have "\<forall>i < length xs. ((replicate w None @ map Some vs) ! i = None) = (i < w)"
    using l by (simp add: nth_append)
  moreover have "length (replicate w None @ map Some vs) = length xs"
    using l False by simp
  ultimately show ?thesis using r by blast
qed

text \<open>
  C1, as stated, fails: with window 2 on three closes the relative strength index is
  missing at position 1 (the first \<open>w\<close> positions are missing, not the first \<open>w - 1\<close>),
  and with window 1 both Bollinger bands are missing at position 0 (the sample standard
  deviation of one value is undefined).
\<close>

theorem indicator_shape_counterexample:
  "(2::nat) \<le> length [1, 2, 3 :: real] \<and>
   RSI [1, 2, 3] 2 = Inr [None, None, Some 100] \<and>
   (1::nat) \<le> length [5 :: real] \<and>
   upper_band [5] 1 1 = [None] \<and> lower_band [5] 1 1 = [None]"
proof -
  have "RSI [1, 2, 3] 2 = Inr [None, None, Some 100]"
    by (simp add: RSI_def rsi_value_def TA_IS_ZERO_def Let_def numeral_2_eq_2)
  moreover have "upper_band [5] 1 1 = [None]"
    by (simp add: upper_band_def rolling_mean_def rolling_std_def series_add_def
        series_scale_def)
  moreover have "lower_band [5] 1 1 = [None]"
    by (simp add: lower_band_def rolling_mean_def rolling_std_def series_sub_def
        series_scale_def)
  ultimately show ?thesis by simp
qed

text \<open>
  C1, amended. For a close series of length \<open>n\<close> and a window \<open>w \<le> n\<close>: the moving
  average (for \<open>w \<ge> 1\<close>) and both Bollinger bands (for \<open>w \<ge> 2\<close>) have length \<open>n\<close>,
  with exactly the first \<open>w - 1\<close> positions missing and every later position numeric;
  the relative strength index (for \<open>2 \<le> w \<le> 100000\<close>) returns a series of length \<open>n\<close>
  with exactly the first \<open>w\<close> positions missing and every later position numeric.
\<close>

theorem indicator_shape:
  assumes "w \<le> length closes"
  shows "(1 \<le> w \<longrightarrow>
            length (sma closes w) = length closes \<and>
            (\<forall>i < length closes. (sma closes w ! i = None) = (i < w - 1))) \<and>
         (2 \<le> w \<longrightarrow>
            length (upper_band closes w k) = length closes \<and>
            length (lower_band closes w k) = length closes \<and>
            (\<forall>i < length closes.
               (upper_band closes w k ! i = None) = (i < w - 1) \<and>
               (lower_band closes w k ! i = None) = (i < w - 1))) \<and>
         (2 \<le> w \<and> w \<le> 100000 \<longrightarrow>
            (\<exists>out. RSI closes w = Inr out \<and> length out = length closes \<and>
               (\<forall>i < length closes. (out ! i = None) = (i < w))))"
proof (intro conjI impI)
  assume "1 \<le> w"
  then show "\<forall>i < length closes. (sma closes w ! i = None) = (i < w - 1)"
    by (simp add: sma_shape)
next
  show "length (sma closes w) = length closes" by (simp add: sma_def)
next
  assume "2 \<le> w"
  then show "\<forall>i < length closes.
               (upper_band closes w k ! i = None) = (i < w - 1) \<and>
               (lower_band closes w k ! i = None) = (i < w - 1)"
    by (simp add: upper_band_shape lower_band_shape)
next
  assume "2 \<le> w \<and> w \<le> 100000"
  then show "\<exists>out. RSI closes w = Inr out \<and> length out = length closes \<and>
               (\<forall>i < length closes. (out ! i = None) = (i < w))"
    by (simp add: RSI_shape)
qed simp_all

theorem indicator_shape_witness:
  "(2::nat) \<le> length [1, 2, 3 :: real] \<and>
   length (sma [1, 2, 3] 2) = 3 \<and>
   sma [1, 2, 3] 2 ! 0 = None \<and> sma [1, 2, 3] 2 ! 1 \<noteq> None \<and> sma [1, 2, 3] 2 ! 2 \<noteq> None \<and>
   upper_band [1, 2, 3] 2 1 ! 0 = None \<and> upper_band [1, 2, 3] 2 1 ! 1 \<noteq> None \<and>
   lower_band [1, 2, 3] 2 1 ! 0 = None \<and> lower_band [1, 2, 3] 2 1 ! 2 \<noteq> None \<and>
   (\<exists>out. RSI [1, 2, 3] 2 = Inr out \<and> length out = 3 \<and>
      out ! 0 = None \<and> out ! 1 = None \<and> out ! 2 \<noteq> None)"
proof -
  have h: "(2::nat) \<le> length [1, 2, 3 :: real]" by simp
  note t = indicator_shape [OF h, of 1]
  from t have s: "\<forall>i<3. (sma [1, 2, 3] 2 ! i = None) = (i < 1)"
    and l: "length (sma [1, 2, 3] 2) = 3"
    and b: "\<forall>i<3. (upper_band [1, 2, 3] 2 1 ! i = None) = (i < 1) \<and>
                  (lower_band [1, 2, 3] 2 1 ! i = None) = (i < 1)"
    and r: "\<exists>out. RSI [1, 2, 3] 2 = Inr out \<and> length out = 3 \<and>
                  (\<forall>i<3. (out ! i = None) = (i < 2))"
    by (simp_all add: numeral_3_eq_3)
  from r obtain out where o: "RSI [1, 2, 3] 2 = Inr out" "length out = 3"
    "\<forall>i<3. (out ! i = None) = (i < 2)" by blast
  have "out ! 0 = None" "out ! 1 = None" "out ! 2 \<noteq> None"
    using o(3) by simp_all
  with o(1,2) have "\<exists>out. RSI [1, 2, 3] 2 = Inr out \<and> length out = 3 \<and>
      out ! 0 = None \<and> out ! 1 = None \<and> out ! 2 \<noteq> None" by blast
  moreover have "sma [1, 2, 3] 2 ! 0 = None" "sma [1, 2, 3] 2 ! 1 \<noteq> None"
    "sma [1, 2, 3] 2 ! 2 \<noteq> None"
    using s by simp_all
  moreover have "upper_band [1, 2, 3] 2 1 ! 0 = None" "upper_band [1, 2, 3] 2 1 ! 1 \<noteq> None"
    "lower_band [1, 2, 3] 2 1 ! 0 = None" "lower_band [1, 2, 3] 2 1 ! 2 \<noteq> None"
    using b by simp_all
  ultimately show ?thesis using h l by blast
qed

section \<open>Examples evaluated\<close>

lemma sample_table_eq:
  "sample_table =
     \<lparr>index_name = ''Date'',
      index = [Date 2023 1 3, Date 2023 1 4, Date 2023 1 5],
      columns = [(''Close'', [10, 12, 11]), (''High'', [11, 13, 12]),
                 (''Low'', [9, 10, 10]), (''Open'', [10, 11, 12]),
                 (''Volume'', [100, 200, 150])]\<rparr>"
  by (simp add: sample_table_def load_data_def sample_env_def sample_frame_def date_gt_def)

lemma late_start_table_eq:
  "late_start_table =
     \<lparr>index_name = ''Date'', index = [],
      columns = [(''Close'', []), (''High'', []), (''Low'', []), (''Open'', []),
                 (''Volume'', [])]\<rparr>"
  by (simp add: late_start_table_def load_data_def sample_env_def no_rows_frame_def
      date_gt_def)

lemma price_series_sample_table: "price_series sample_table"
  by (simp add: sample_table_eq price_series_def wf_frame_def columns_to_list_def)

lemma price_series_late_start_table: "price_series late_start_table"
  by (simp add: late_start_table_eq price_series_def wf_frame_def columns_to_list_def)

lemma wf_sample_directory: "wf_directory sample_directory"
  by (simp add: wf_directory_def sample_directory_def dict_def)

lemma sample_widget_ranges:
  "widget_ranges sample_directory sample_inputs"
  "widget_ranges sample_directory default_period_inputs"
  "widget_ranges sample_directory late_start_inputs"
  by (simp_all add: widget_ranges_def sample_directory_def sample_inputs_def
      default_period_inputs_def late_start_inputs_def)

section \<open>Series shorter than the window\<close>

lemma series_shorter_than_window:
  assumes "length closes < w"
  shows "sma closes w = replicate (length closes) None \<and>
         upper_band closes w k = replicate (length closes) None \<and>
         lower_band closes w k = replicate (length closes) None \<and>
         (2 \<le> w \<and> w \<le> 100000 \<longrightarrow> RSI closes w = Inr (replicate (length closes) None))"
  using assms by (simp add: sma_short upper_band_short lower_band_short RSI_short)

lemma sample_columns:
  "getitem sample_table ''Open'' = Inr [10, 11, 12]"
  "getitem sample_table ''Close'' = Inr [10, 12, 11]"
  "getitem sample_table ''High'' = Inr [11, 13, 12]"
  "getitem sample_table ''Low'' = Inr [9, 10, 10]"
  "getitem sample_table ''Volume'' = Inr [100, 200, 150]"
  "index sample_table = [Date 2023 1 3, Date 2023 1 4, Date 2023 1 5]"
  by (simp_all add: sample_table_eq getitem_def)

text \<open>
  C2. The code does not do what the claim says. A series that is long enough is a
  degenerate case too: the widget of line 56 allows the period 1 and starts with it,
  and with that period the relative strength index of line 97 raises on the three
  closes of the example, which are not fewer than the period.
\<close>

theorem rsi_raises_on_sufficient_length:
  "widget_ranges sample_directory default_period_inputs \<and>
   rsi_periods default_period_inputs = 1 \<and>
   getitem sample_table ''Close'' = Inr [10, 12, 11] \<and>
   \<not> length [10, 12, 11 :: real] < rsi_periods default_period_inputs \<and>
   RSI [10, 12, 11] (rsi_periods default_period_inputs) = Inl TA_BAD_PARAM \<and>
   rsi_step default_period_inputs sample_table [] = ([], Some TA_BAD_PARAM)"
proof -
  have p: "rsi_periods default_period_inputs = 1" "rsi_flag default_period_inputs"
    by (simp_all add: default_period_inputs_def sample_inputs_def)
  have r: "RSI [10, 12, 11] 1 = Inl TA_BAD_PARAM" by (simp add: RSI_def)
  have "rsi_step default_period_inputs sample_table [] = ([], Some TA_BAD_PARAM)"
    using p r by (simp add: rsi_step_def sample_columns)
  with p r sample_widget_ranges(2) sample_columns(2) show ?thesis by simp
qed

section \<open>Claims about the page\<close>

lemma no_chart_before_plotting:
  "\<not> list_ex is_chart (date_check inp @ [Dataframe sel, download_button e inp sel])"
  by (simp add: date_check_def download_button_def)

text \<open>
  C5. Whenever the start date is after the end date, the run shows the sidebar warning
  first and then goes on as usual: \<^verbatim>\<open>load_data\<close> is called once with the ticker and
  the two dates as entered, the preview and the download button follow, and the
  plotting step runs on the loaded table; the run ends with an exception only if the
  plotting step raises one.
\<close>

theorem late_start_date_warns_and_continues:
  assumes "date_gt (start_date inp) (end_date inp)"
    and "df = load_data e (ticker inp) (start_date inp) (end_date inp)"
    and "multiselect_ok df inp"
  shows "\<exists>sel. getitem_list df (columns_to_show inp) = Inr sel \<and>
           shown (page e dir inp) =
             Sidebar_error ''The End Date must fall after the Start Date'' #
             Dataframe sel # download_button e inp sel # fst (plotting dir inp df) \<and>
           queries (page e dir inp) = [(ticker inp, start_date inp, end_date inp)] \<and>
           fig (page e dir inp) = fst (snd (plotting dir inp df)) \<and>
           fault (page e dir inp) = snd (snd (plotting dir inp df))"
proof -
  from getitem_list_present [OF assms(3)] obtain sel where
    sel: "getitem_list df (columns_to_show inp) = Inr sel" by blast
  from page_unfold [OF assms(2) sel, of dir] assms(1) sel show ?thesis
    by (simp add: date_check_def)
qed

theorem late_start_date_warns_and_continues_witness:
  "date_gt (start_date late_start_inputs) (end_date late_start_inputs) \<and>
   late_start_table = load_data sample_env (ticker late_start_inputs)
     (start_date late_start_inputs) (end_date late_start_inputs) \<and>
   multiselect_ok late_start_table late_start_inputs \<and>
   (\<exists>sel. getitem_list late_start_table (columns_to_show late_start_inputs) = Inr sel \<and>
      shown (page sample_env sample_directory late_start_inputs) =
        Sidebar_error ''The End Date must fall after the Start Date'' #
        Dataframe sel # download_button sample_env late_start_inputs sel #
        fst (plotting sample_directory late_start_inputs late_start_table) \<and>
      queries (page sample_env sample_directory late_start_inputs) =
        [(''AAPL'', Date 2023 6 1, Date 2023 1 1)] \<and>
      fault (page sample_env sample_directory late_start_inputs) = None)"
proof -
  have h1: "date_gt (start_date late_start_inputs) (end_date late_start_inputs)"
    by (simp add: late_start_inputs_def date_gt_def)
  have h2: "late_start_table = load_data sample_env (ticker late_start_inputs)
     (start_date late_start_inputs) (end_date late_start_inputs)"
    by (simp add: late_start_table_def late_start_inputs_def sample_inputs_def)
  have h3: "multiselect_ok late_start_table late_start_inputs"
    by (simp add: multiselect_ok_def late_start_table_eq late_start_inputs_def
        sample_inputs_def columns_to_list_def)
  have e: "empty late_start_table" by (simp add: late_start_table_eq empty_def)
  have v: "ticker late_start_inputs = ''AAPL''"
    "start_date late_start_inputs = Date 2023 6 1"
    "end_date late_start_inputs = Date 2023 1 1"
    by (simp_all add: late_start_inputs_def sample_inputs_def)
  from late_start_date_warns_and_continues [OF h1 h2 h3, of sample_directory]
  have "\<exists>sel. getitem_list late_start_table (columns_to_show late_start_inputs) = Inr sel \<and>
      shown (page sample_env sample_directory late_start_inputs) =
        Sidebar_error ''The End Date must fall after the Start Date'' #
        Dataframe sel # download_button sample_env late_start_inputs sel #
        fst (plotting sample_directory late_start_inputs late_start_table) \<and>
      queries (page sample_env sample_directory late_start_inputs) =
        [(''AAPL'', Date 2023 6 1, Date 2023 1 1)] \<and>
      fault (page sample_env sample_directory late_start_inputs) = None"
    unfolding v by (auto simp add: plotting_empty [OF e])
  with h1 h2 h3 show ?thesis by blast
qed

text \<open>
  C6. When the loaded table is empty, no call is made on the figure, no chart is
  shown, the page error is shown and the run ends without exception. When it is a
  non-empty price series, the candlestick trace is the first call on the figure, and
  a run that ends without exception shows the chart of that figure last.
\<close>

theorem chart_only_for_nonempty_table:
  assumes "df = load_data e (ticker inp) (start_date inp) (end_date inp)"
    and "multiselect_ok df inp"
  shows "(empty df \<longrightarrow>
            fig (page e dir inp) = [] \<and>
            \<not> list_ex is_chart (shown (page e dir inp)) \<and>
            last (shown (page e dir inp)) =
              Page_error ''No Data Available for the Selected Stock and Date range'' \<and>
            fault (page e dir inp) = None) \<and>
         (\<not> empty df \<and> price_series df \<longrightarrow>
            (\<exists>op cl hi lo rest.
               getitem df ''Open'' = Inr op \<and> getitem df ''Close'' = Inr cl \<and>
               getitem df ''High'' = Inr hi \<and> getitem df ''Low'' = Inr lo \<and>
               fig (page e dir inp) =
                 Add_trace (Candlestick op cl hi lo ''Price'' (index df)) # rest \<and>
               (fault (page e dir inp) = None \<longrightarrow>
                  last (shown (page e dir inp)) =
                    Plotly_chart (fig (page e dir inp)) [(''scrollZoom'', True)])))"
proof -
  from getitem_list_present [OF assms(2)] obtain sel where
    sel: "getitem_list df (columns_to_show inp) = Inr sel" by blast
  note pg = page_unfold [OF assms(1) sel, of dir]
  have a: "fig (page e dir inp) = [] \<and>
            \<not> list_ex is_chart (shown (page e dir inp)) \<and>
            last (shown (page e dir inp)) =
              Page_error ''No Data Available for the Selected Stock and Date range'' \<and>
            fault (page e dir inp) = None" if "empty df"
    using pg plotting_empty [OF that, of dir inp] no_chart_before_plotting [of inp sel e]
    by simp
  have b: "\<exists>op cl hi lo rest.
               getitem df ''Open'' = Inr op \<and> getitem df ''Close'' = Inr cl \<and>
               getitem df ''High'' = Inr hi \<and> getitem df ''Low'' = Inr lo \<and>
               fig (page e dir inp) =
                 Add_trace (Candlestick op cl hi lo ''Price'' (index df)) # rest \<and>
               (fault (page e dir inp) = None \<longrightarrow>
                  last (shown (page e dir inp)) =
                    Plotly_chart (fig (page e dir inp)) [(''scrollZoom'', True)])"
    if ne: "\<not> empty df" and ps: "price_series df"
  proof -
    from price_series_columns [OF ps] obtain op cl hi lo where
      cols: "getitem df ''Open'' = Inr op" "getitem df ''Close'' = Inr cl"
        "getitem df ''High'' = Inr hi" "getitem df ''Low'' = Inr lo" by blast
    from build_chart_candlestick_first [OF cols, of dir inp "[]"] obtain rest err where
      bc: "build_chart dir inp df [] =
             (Add_trace (Candlestick op cl hi lo ''Price'' (index df)) # rest, err)"
      by auto
    have "fig (page e dir inp) = Add_trace (Candlestick op cl hi lo ''Price'' (index df)) # rest"
      using pg bc ne by (cases err) (simp_all add: plotting_nonempty)
    moreover have "fault (page e dir inp) = None \<longrightarrow>
                  last (shown (page e dir inp)) =
                    Plotly_chart (fig (page e dir inp)) [(''scrollZoom'', True)]"
      using pg bc ne by (cases err) (simp_all add: plotting_nonempty)
    ultimately have "getitem df ''Open'' = Inr op \<and> getitem df ''Close'' = Inr cl \<and>
               getitem df ''High'' = Inr hi \<and> getitem df ''Low'' = Inr lo \<and>
               fig (page e dir inp) =
                 Add_trace (Candlestick op cl hi lo ''Price'' (index df)) # rest \<and>
               (fault (page e dir inp) = None \<longrightarrow>
                  last (shown (page e dir inp)) =
                    Plotly_chart (fig (page e dir inp)) [(''scrollZoom'', True)])"
      using cols by simp
    then show ?thesis by (iprover intro: exI)
  qed
  from a b show ?thesis by blast
qed

theorem chart_only_for_nonempty_table_witness:
  "late_start_table = load_data sample_env (ticker late_start_inputs)
     (start_date late_start_inputs) (end_date late_start_inputs) \<and>
   multiselect_ok late_start_table late_start_inputs \<and>
   empty late_start_table \<and>
   fig (page sample_env sample_directory late_start_inputs) = [] \<and>
   last (shown (page sample_env sample_directory late_start_inputs)) =
     Page_error ''No Data Available for the Selected Stock and Date range'' \<and>
   fault (page sample_env sample_directory late_start_inputs) = None \<and>
   sample_table = load_data sample_env (ticker sample_inputs)
     (start_date sample_inputs) (end_date sample_inputs) \<and>
   multiselect_ok sample_table sample_inputs \<and>
   \<not> empty sample_table \<and> price_series sample_table \<and>
   (\<exists>rest. fig (page sample_env sample_directory sample_inputs) =
      Add_trace (Candlestick [10, 11, 12] [10, 12, 11] [11, 13, 12] [9, 10, 10] ''Price''
                   [Date 2023 1 3, Date 2023 1 4, Date 2023 1 5]) # rest)"
proof -
  have a1: "late_start_table = load_data sample_env (ticker late_start_inputs)
     (start_date late_start_inputs) (end_date late_start_inputs)"
    by (simp add: late_start_table_def late_start_inputs_def sample_inputs_def)
  have a2: "multiselect_ok late_start_table late_start_inputs"
    by (simp add: multiselect_ok_def late_start_table_eq late_start_inputs_def
        sample_inputs_def columns_to_list_def)
  have a3: "empty late_start_table" by (simp add: late_start_table_eq empty_def)
  have b1: "sample_table = load_data sample_env (ticker sample_inputs)
     (start_date sample_inputs) (end_date sample_inputs)"
    by (simp add: sample_table_def sample_inputs_def)
  have b2: "multiselect_ok sample_table sample_inputs"
    by (simp add: multiselect_ok_def sample_table_eq sample_inputs_def columns_to_list_def)
  have b3: "\<not> empty sample_table" by (simp add: sample_table_eq empty_def)
  have g: "getitem sample_table ''Open'' = Inr [10, 11, 12]"
    "getitem sample_table ''Close'' = Inr [10, 12, 11]"
    "getitem sample_table ''High'' = Inr [11, 13, 12]"
    "getitem sample_table ''Low'' = Inr [9, 10, 10]"
    "index sample_table = [Date 2023 1 3, Date 2023 1 4, Date 2023 1 5]"
    by (simp_all add: sample_table_eq getitem_def)
  from chart_only_for_nonempty_table [OF a1 a2, of sample_directory] a3
  have a: "fig (page sample_env sample_directory late_start_inputs) = []"
    "last (shown (page sample_env sample_directory late_start_inputs)) =
       Page_error ''No Data Available for the Selected Stock and Date range''"
    "fault (page sample_env sample_directory late_start_inputs) = None"
    by simp_all
  from chart_only_for_nonempty_table [OF b1 b2, of sample_directory] b3
    price_series_sample_table
  have "\<exists>rest. fig (page sample_env sample_directory sample_inputs) =
      Add_trace (Candlestick [10, 11, 12] [10, 12, 11] [11, 13, 12] [9, 10, 10] ''Price''
                   [Date 2023 1 3, Date 2023 1 4, Date 2023 1 5]) # rest"
    unfolding g by auto
  with a a1 a2 a3 b1 b2 b3 price_series_sample_table show ?thesis by simp
qed

text \<open>
  The order of the calls when no block raises. For every non-empty price series and
  every combination of the indicator flags, with a period of at least 2 when the
  relative strength index is enabled, the plotting step ends without exception and
  shows the chart, and the calls on its figure are, in this order: the candlestick
  trace; if enabled, the line of the relative strength index and its two horizontal
  lines; if enabled, the volume bars; if enabled, the line of the moving average; if
  enabled, the upper and the lower Bollinger band; and the layout.
\<close>

lemma chart_calls_in_order:
  assumes "\<not> empty df" and "price_series df" and "wf_directory dir"
    and "ticker inp \<in> set (available_tickers dir)"
    and "rsi_flag inp \<longrightarrow> 2 \<le> rsi_periods inp \<and> rsi_periods inp \<le> 100000"
  shows "\<exists>f company.
           plotting dir inp df = ([Plotly_chart f [(''scrollZoom'', True)]], f, None) \<and>
           tickers_companies_dict dir (ticker inp) = Some company \<and>
           map describe f =
             [(''Candlestick'', ''Price'')] @
             (if rsi_flag inp
              then [(''Scatter'', ''RSI '' @ str_nat (rsi_periods inp)),
                    (''hline'', str_nat (rsi_upper inp)),
                    (''hline'', str_nat (rsi_lower inp))]
              else []) @
             (if volume_flag inp then [(''Bar'', ''Volume'')] else []) @
             (if sma_flag inp then [(''Scatter'', ''SMA '' @ str_nat (sma_periods inp))]
              else []) @
             (if bb_flag inp
              then [(''Scatter'', ''Upper Bollinger Band''),
                    (''Scatter'', ''Lower Bollinger Band'')]
              else []) @
             [(''layout'', company @ [CHR 0x27] @ ''s Stock Price'')]"
proof -
  from price_series_columns [OF assms(2)] obtain op cl hi lo vol where
    cols: "getitem df ''Open'' = Inr op" "getitem df ''Close'' = Inr cl"
      "getitem df ''High'' = Inr hi" "getitem df ''Low'' = Inr lo"
      "getitem df ''Volume'' = Inr vol" by blast
  from directory_lookup [OF assms(3,4)] obtain company where
    c: "tickers_companies_dict dir (ticker inp) = Some company" by blast
  have "\<exists>rsi. rsi_flag inp \<longrightarrow> RSI cl (rsi_periods inp) = Inr rsi"
  proof (cases "rsi_flag inp")
    case True
    with assms(5) have "2 \<le> rsi_periods inp" "rsi_periods inp \<le> 100000" by simp_all
    from RSI_shape [OF this, of cl] show ?thesis by blast
  next
    case False
    then show ?thesis by simp
  qed
  then obtain rsi where rsi: "rsi_flag inp \<longrightarrow> RSI cl (rsi_periods inp) = Inr rsi" by blast
  define f where "f = [] @ [Add_trace (Candlestick op cl hi lo ''Price'' (index df))] @
            (if rsi_flag inp then rsi_calls inp df rsi else []) @
            (if volume_flag inp then volume_calls df vol else []) @
            (if sma_flag inp then sma_calls inp df cl else []) @
            (if bb_flag inp then bb_calls inp df cl else []) @
            layout_calls company"
  have "build_chart dir inp df [] = (f, None)"
    unfolding f_def using cols rsi c by (rule build_chart_ok)
  then have "plotting dir inp df = ([Plotly_chart f [(''scrollZoom'', True)]], f, None)"
    using assms(1) by (simp add: plotting_nonempty)
  moreover have "map describe f =
             [(''Candlestick'', ''Price'')] @
             (if rsi_flag inp
              then [(''Scatter'', ''RSI '' @ str_nat (rsi_periods inp)),
                    (''hline'', str_nat (rsi_upper inp)),
                    (''hline'', str_nat (rsi_lower inp))]
              else []) @
             (if volume_flag inp then [(''Bar'', ''Volume'')] else []) @
             (if sma_flag inp then [(''Scatter'', ''SMA '' @ str_nat (sma_periods inp))]
              else []) @
             (if bb_flag inp
              then [(''Scatter'', ''Upper Bollinger Band''),
                    (''Scatter'', ''Lower Bollinger Band'')]
              else []) @
             [(''layout'', company @ [CHR 0x27] @ ''s Stock Price'')]"
    by (simp add: f_def rsi_calls_def volume_calls_def sma_calls_def bb_calls_def
        layout_calls_def)
  ultimately show ?thesis using c by (iprover intro: exI conjI)
qed

lemma str_nat_digit: "n < 10 \<Longrightarrow> str_nat n = [digit_char n]"
  by (simp add: str_nat.simps)

lemma str_nat_step:
  "10 \<le> n \<Longrightarrow> str_nat n = str_nat (n div 10) @ [digit_char (n mod 10)]"
  by (subst str_nat.simps) simp

lemma sample_chart_calls:
  "\<exists>f. plotting sample_directory sample_inputs sample_table =
          ([Plotly_chart f [(''scrollZoom'', True)]], f, None) \<and>
        map describe f =
          [(''Candlestick'', ''Price''), (''Scatter'', ''RSI 2''), (''hline'', ''70''),
           (''hline'', ''30''), (''Bar'', ''Volume''), (''Scatter'', ''SMA 2''),
           (''Scatter'', ''Upper Bollinger Band''), (''Scatter'', ''Lower Bollinger Band''),
           (''layout'', ''Apple Inc.'' @ [CHR 0x27] @ ''s Stock Price'')]"
proof -
  have h1: "\<not> empty sample_table" by (simp add: sample_table_eq empty_def)
  have h4: "ticker sample_inputs \<in> set (available_tickers sample_directory)"
    by (simp add: sample_inputs_def sample_directory_def)
  have h5: "rsi_flag sample_inputs \<longrightarrow>
      2 \<le> rsi_periods sample_inputs \<and> rsi_periods sample_inputs \<le> 100000"
    by (simp add: sample_inputs_def)
  have v: "rsi_flag sample_inputs" "volume_flag sample_inputs" "sma_flag sample_inputs"
    "bb_flag sample_inputs"
    "str_nat (rsi_periods sample_inputs) = ''2''" "str_nat (sma_periods sample_inputs) = ''2''"
    "str_nat (rsi_upper sample_inputs) = ''70''" "str_nat (rsi_lower sample_inputs) = ''30''"
    by (simp_all add: sample_inputs_def str_nat_digit str_nat_step digit_char_def)
  have d: "tickers_companies_dict sample_directory (ticker sample_inputs) =
           Some ''Apple Inc.''"
    by (simp add: sample_inputs_def sample_directory_def dict_def)
  from chart_calls_in_order [OF h1 price_series_sample_table wf_sample_directory h4 h5]
  show ?thesis
    unfolding d using v by auto
qed

text \<open>
  C9. The code does not do what the claim says. With every indicator enabled and the
  period the widget of line 56 starts with, the relative strength index of line 97
  raises: the candlestick trace is the only call on the figure, the enabled line of
  the index, the volume bars, the moving average and the Bollinger bands are never
  added, and no chart is shown.
\<close>

theorem default_rsi_period_stops_the_chart:
  "widget_ranges sample_directory default_period_inputs \<and>
   \<not> empty sample_table \<and> price_series sample_table \<and>
   rsi_flag default_period_inputs \<and> volume_flag default_period_inputs \<and>
   sma_flag default_period_inputs \<and> bb_flag default_period_inputs \<and>
   plotting sample_directory default_period_inputs sample_table =
     ([],
      [Add_trace (Candlestick [10, 11, 12] [10, 12, 11] [11, 13, 12] [9, 10, 10] ''Price''
                    [Date 2023 1 3, Date 2023 1 4, Date 2023 1 5])],
      Some TA_BAD_PARAM)"
proof -
  have ne: "\<not> empty sample_table" by (simp add: sample_table_eq empty_def)
  have v: "rsi_flag default_period_inputs" "volume_flag default_period_inputs"
    "sma_flag default_period_inputs" "bb_flag default_period_inputs"
    "rsi_periods default_period_inputs = 1"
    by (simp_all add: default_period_inputs_def sample_inputs_def)
  have "build_chart sample_directory default_period_inputs sample_table [] =
          ([Add_trace (Candlestick [10, 11, 12] [10, 12, 11] [11, 13, 12] [9, 10, 10]
                         ''Price'' [Date 2023 1 3, Date 2023 1 4, Date 2023 1 5])],
           Some TA_BAD_PARAM)"
    using v by (simp add: build_chart_def and_then_def candlestick_step_def rsi_step_def
        sample_columns RSI_def)
  then have "plotting sample_directory default_period_inputs sample_table =
     ([],
      [Add_trace (Candlestick [10, 11, 12] [10, 12, 11] [11, 13, 12] [9, 10, 10] ''Price''
                    [Date 2023 1 3, Date 2023 1 4, Date 2023 1 5])],
      Some TA_BAD_PARAM)"
    using ne by (simp add: plotting_nonempty)
  with ne v sample_widget_ranges(2) price_series_sample_table show ?thesis by simp
qed

section \<open>Claims about the export and the ticker loader\<close>

lemma to_csv_unfold:
  "to_csv e sel =
     csv_record (linesep e) (index_name sel # map fst (columns sel)) @
     concat (map (\<lambda>i. csv_record (linesep e)
                         (fmt_index e (index sel ! i) #
                          map (\<lambda>c. fmt_value e (fst c) (snd c ! i)) (columns sel)))
                 [0..<length (index sel)])"
  by (simp add: to_csv_def csv_records_def csv_header_def csv_row_def comp_def)

lemma csv_field_examples:
  "csv_field ''Close'' = ''Close''"
  "csv_field ''a,b'' = [CHR 0x22] @ ''a,b'' @ [CHR 0x22]"
  "csv_field [CHR ''a'', CHR 0x22] = [CHR 0x22, CHR ''a'', CHR 0x22, CHR 0x22, CHR 0x22]"
  "csv_record [CHR 0x0A] [[]] = [CHR 0x22, CHR 0x22, CHR 0x0A]"
  by (simp_all add: csv_field_def csv_record_def)

subsection \<open>The bytes\<close>

lemma unat_byte: "n < 256 \<Longrightarrow> unat (of_nat n :: 8 word) = n"
  by (simp add: unat_of_nat)

lemma utf8_char_decoded:
  "utf8_reference_decode (utf8_char c @ bs) =
     map_option ((#) c) (utf8_reference_decode bs)"
proof -
  define n where "n = (of_char c :: nat)"
  have n: "n < 256" by (simp add: n_def)
  have c: "char_of n = c" by (simp add: n_def)
  show ?thesis
  proof (cases "n < 128")
    case True
    then have u: "utf8_char c = [of_nat n]" by (simp add: utf8_char_def n_def Let_def)
    have b: "unat (of_nat n :: 8 word) = n" using n by (rule unat_byte)
    show ?thesis
      unfolding u using True b c by (cases bs) simp_all
  next
    case False
    then have u: "utf8_char c = [of_nat (192 + n div 64), of_nat (128 + n mod 64)]"
      by (simp add: utf8_char_def n_def Let_def)
    have d: "n div 64 < 4" "2 \<le> n div 64" using n False by simp_all
    have b1: "unat (of_nat (192 + n div 64) :: 8 word) = 192 + n div 64"
      using d by (intro unat_byte) simp
    have b2: "unat (of_nat (128 + n mod 64) :: 8 word) = 128 + n mod 64"
      by (intro unat_byte) simp
    have r: "n div 64 * 64 + n mod 64 = n" by simp
    show ?thesis
      unfolding u using d b1 b2 r c by simp
  qed
qed

lemma utf8_round_trip: "utf8_reference_decode (encode_utf8 s) = Some s"
proof (induction s)
  case Nil
  then show ?case by (simp add: encode_utf8_def)
next
  case (Cons c s)
  have "encode_utf8 (c # s) = utf8_char c @ encode_utf8 s"
    by (simp add: encode_utf8_def)
  then show ?case using Cons.IH by (simp add: utf8_char_decoded)
qed

lemma utf8_of_ascii:
  "list_all (\<lambda>c. of_char c < (128::nat)) s \<Longrightarrow> map unat (encode_utf8 s) = map of_char s"
proof (induction s)
  case Nil
  then show ?case by (simp add: encode_utf8_def)
next
  case (Cons c s)
  then have a: "of_char c < (128::nat)" and r: "map unat (encode_utf8 s) = map of_char s"
    by simp_all
  have "encode_utf8 (c # s) = [of_nat (of_char c)] @ encode_utf8 s"
    using a by (simp add: encode_utf8_def utf8_char_def Let_def)
  moreover have "unat (of_nat (of_char c) :: 8 word) = of_char c"
    using a by (intro unat_byte) simp
  ultimately show ?case using r by simp
qed

text \<open>
  C8. For every loaded table and every selection of its columns, the download button
  offers, under the file name of the ticker followed by \<open>Daily Stock Prices\<close> and with
  MIME type \<open>text/csv\<close>, the bytes that \<^verbatim>\<open>convert_df_to_csv\<close> returns for the selected
  columns. These bytes are UTF-8: read back as UTF-8 they give the CSV text, and
  where the text is ASCII they are its characters' codes. The CSV text is the header
  record, the index name followed by the selected column labels, then one record per
  row, the index entry first, followed by the row's values of the selected columns.
\<close>

theorem csv_export_contract:
  assumes "df = load_data e (ticker inp) (start_date inp) (end_date inp)"
    and "multiselect_ok df inp"
  shows "\<exists>sel. getitem_list df (columns_to_show inp) = Inr sel \<and>
           Download_button ''Download selected as CSV'' (convert_df_to_csv e sel)
             (ticker inp @ '' Daily Stock Prices'') ''text/csv''
             \<in> set (shown (page e dir inp)) \<and>
           utf8_reference_decode (convert_df_to_csv e sel) = Some (to_csv e sel) \<and>
           (list_all (\<lambda>c. of_char c < (128::nat)) (to_csv e sel) \<longrightarrow>
              map unat (convert_df_to_csv e sel) = map of_char (to_csv e sel)) \<and>
           to_csv e sel =
             csv_record (linesep e) (index_name df # columns_to_show inp) @
             concat (map (\<lambda>i. csv_record (linesep e)
                                 (fmt_index e (index df ! i) #
                                  map (\<lambda>c. fmt_value e (fst c) (snd c ! i)) (columns sel)))
                         [0..<length (index df)]) \<and>
           map fst (columns sel) = columns_to_show inp \<and>
           (\<forall>p \<in> set (columns sel). getitem df (fst p) = Inr (snd p))"
proof -
  from getitem_list_present [OF assms(2)] obtain r where
    sel: "getitem_list df (columns_to_show inp) =
            Inr \<lparr>index_name = index_name df, index = index df, columns = r\<rparr>" and
    names: "map fst r = columns_to_show inp" and
    vals: "\<forall>p \<in> set r. map_of (columns df) (fst p) = Some (snd p)" by blast
  define sel where "sel = \<lparr>index_name = index_name df, index = index df, columns = r\<rparr>"
  have s: "getitem_list df (columns_to_show inp) = Inr sel"
    using sel by (simp add: sel_def)
  have "Download_button ''Download selected as CSV'' (convert_df_to_csv e sel)
             (ticker inp @ '' Daily Stock Prices'') ''text/csv''
             \<in> set (shown (page e dir inp))"
    using page_unfold [OF assms(1) s, of dir] by (simp add: download_button_def)
  moreover have "utf8_reference_decode (convert_df_to_csv e sel) = Some (to_csv e sel)"
    by (simp add: convert_df_to_csv_def utf8_round_trip)
  moreover have "list_all (\<lambda>c. of_char c < (128::nat)) (to_csv e sel) \<longrightarrow>
              map unat (convert_df_to_csv e sel) = map of_char (to_csv e sel)"
    by (simp add: convert_df_to_csv_def utf8_of_ascii)
  moreover have "to_csv e sel =
             csv_record (linesep e) (index_name df # columns_to_show inp) @
             concat (map (\<lambda>i. csv_record (linesep e)
                                 (fmt_index e (index df ! i) #
                                  map (\<lambda>c. fmt_value e (fst c) (snd c ! i)) (columns sel)))
                         [0..<length (index df)])"
    unfolding to_csv_unfold using names by (simp add: sel_def)
  moreover have "map fst (columns sel) = columns_to_show inp"
    using names by (simp add: sel_def)
  moreover have "\<forall>p \<in> set (columns sel). getitem df (fst p) = Inr (snd p)"
    using vals by (simp add: sel_def getitem_def)
  ultimately show ?thesis using s by (iprover intro: exI conjI)
qed

lemma sample_selection:
  "getitem_list sample_table (columns_to_show sample_inputs) =
     Inr \<lparr>index_name = ''Date'',
          index = [Date 2023 1 3, Date 2023 1 4, Date 2023 1 5],
          columns = [(''Close'', [10, 12, 11]), (''Volume'', [100, 200, 150])]\<rparr>"
  by (simp add: sample_table_eq sample_inputs_def getitem_list_def)

lemma sample_csv_text:
  "to_csv sample_env
     \<lparr>index_name = ''Date'',
      index = [Date 2023 1 3, Date 2023 1 4, Date 2023 1 5],
      columns = [(''Close'', [10, 12, 11]), (''Volume'', [100, 200, 150])]\<rparr> =
   ''Date,Close,Volume'' @ [CHR 0x0A] @ ''2023-01-03,10.0,100'' @ [CHR 0x0A] @
        ''2023-01-04,12.0,200'' @ [CHR 0x0A] @ ''2023-01-05,11.0,150'' @ [CHR 0x0A]"
  by (simp add: to_csv_def csv_records_def csv_header_def csv_row_def csv_record_def
      csv_field_def sample_env_def pad2_def str_nat_step str_nat_digit digit_char_def
      upt_rec)

lemma sample_csv_bytes:
  "convert_df_to_csv sample_env
     \<lparr>index_name = ''Date'',
      index = [Date 2023 1 3, Date 2023 1 4, Date 2023 1 5],
      columns = [(''Close'', [10, 12, 11]), (''Volume'', [100, 200, 150])]\<rparr> =
      [68, 97, 116, 101, 44, 67, 108, 111, 115, 101, 44, 86, 111, 108, 117, 109, 101,
       10, 50, 48, 50, 51, 45, 48, 49, 45, 48, 51, 44, 49, 48, 46, 48, 44, 49, 48, 48,
       10, 50, 48, 50, 51, 45, 48, 49, 45, 48, 52, 44, 49, 50, 46, 48, 44, 50, 48, 48,
       10, 50, 48, 50, 51, 45, 48, 49, 45, 48, 53, 44, 49, 49, 46, 48, 44, 49, 53, 48,
       10]"
  unfolding convert_df_to_csv_def sample_csv_text
  by (simp add: encode_utf8_def utf8_char_def Let_def)

theorem csv_export_contract_witness:
  "sample_table = load_data sample_env (ticker sample_inputs)
     (start_date sample_inputs) (end_date sample_inputs) \<and>
   multiselect_ok sample_table sample_inputs \<and>
   (\<exists>sel. getitem_list sample_table (columns_to_show sample_inputs) = Inr sel \<and>
      Download_button ''Download selected as CSV'' (convert_df_to_csv sample_env sel)
        ''AAPL Daily Stock Prices'' ''text/csv''
        \<in> set (shown (page sample_env sample_directory sample_inputs)) \<and>
      utf8_reference_decode (convert_df_to_csv sample_env sel) = Some (to_csv sample_env sel) \<and>
      map fst (columns sel) = [''Close'', ''Volume''] \<and>
      to_csv sample_env sel =
        ''Date,Close,Volume'' @ [CHR 0x0A] @ ''2023-01-03,10.0,100'' @ [CHR 0x0A] @
        ''2023-01-04,12.0,200'' @ [CHR 0x0A] @ ''2023-01-05,11.0,150'' @ [CHR 0x0A] \<and>
      convert_df_to_csv sample_env sel =
      [68, 97, 116, 101, 44, 67, 108, 111, 115, 101, 44, 86, 111, 108, 117, 109, 101,
       10, 50, 48, 50, 51, 45, 48, 49, 45, 48, 51, 44, 49, 48, 46, 48, 44, 49, 48, 48,
       10, 50, 48, 50, 51, 45, 48, 49, 45, 48, 52, 44, 49, 50, 46, 48, 44, 50, 48, 48,
       10, 50, 48, 50, 51, 45, 48, 49, 45, 48, 53, 44, 49, 49, 46, 48, 44, 49, 53, 48,
       10])"
proof -
  have b1: "sample_table = load_data sample_env (ticker sample_inputs)
     (start_date sample_inputs) (end_date sample_inputs)"
    by (simp add: sample_table_def sample_inputs_def)
  have b2: "multiselect_ok sample_table sample_inputs"
    by (simp add: multiselect_ok_def sample_table_eq sample_inputs_def columns_to_list_def)
  have v: "ticker sample_inputs @ '' Daily Stock Prices'' = ''AAPL Daily Stock Prices''"
    "columns_to_show sample_inputs = [''Close'', ''Volume'']"
    by (simp_all add: sample_inputs_def)
  from csv_export_contract [OF b1 b2, of sample_directory] obtain sel where
    s: "getitem_list sample_table (columns_to_show sample_inputs) = Inr sel" and
    d: "Download_button ''Download selected as CSV'' (convert_df_to_csv sample_env sel)
          (ticker sample_inputs @ '' Daily Stock Prices'') ''text/csv''
          \<in> set (shown (page sample_env sample_directory sample_inputs))" and
    u: "utf8_reference_decode (convert_df_to_csv sample_env sel) = Some (to_csv sample_env sel)" and
    n: "map fst (columns sel) = columns_to_show sample_inputs"
    by (elim exE conjE)
  from s have q: "sel = \<lparr>index_name = ''Date'',
      index = [Date 2023 1 3, Date 2023 1 4, Date 2023 1 5],
      columns = [(''Close'', [10, 12, 11]), (''Volume'', [100, 200, 150])]\<rparr>"
    by (simp add: sample_selection)
  have t: "to_csv sample_env sel =
        ''Date,Close,Volume'' @ [CHR 0x0A] @ ''2023-01-03,10.0,100'' @ [CHR 0x0A] @
        ''2023-01-04,12.0,200'' @ [CHR 0x0A] @ ''2023-01-05,11.0,150'' @ [CHR 0x0A]"
    unfolding q by (rule sample_csv_text)
  have y: "convert_df_to_csv sample_env sel =
      [68, 97, 116, 101, 44, 67, 108, 111, 115, 101, 44, 86, 111, 108, 117, 109, 101,
       10, 50, 48, 50, 51, 45, 48, 49, 45, 48, 51, 44, 49, 48, 46, 48, 44, 49, 48, 48,
       10, 50, 48, 50, 51, 45, 48, 49, 45, 48, 52, 44, 49, 50, 46, 48, 44, 50, 48, 48,
       10, 50, 48, 50, 51, 45, 48, 49, 45, 48, 53, 44, 49, 49, 46, 48, 44, 49, 53, 48,
       10]"
    unfolding q by (rule sample_csv_bytes)
  define P where "P = (\<lambda>sel. getitem_list sample_table (columns_to_show sample_inputs) = Inr sel \<and>
      Download_button ''Download selected as CSV'' (convert_df_to_csv sample_env sel)
        ''AAPL Daily Stock Prices'' ''text/csv''
        \<in> set (shown (page sample_env sample_directory sample_inputs)) \<and>
      utf8_reference_decode (convert_df_to_csv sample_env sel) = Some (to_csv sample_env sel) \<and>
      map fst (columns sel) = [''Close'', ''Volume''] \<and>
      to_csv sample_env sel =
        ''Date,Close,Volume'' @ [CHR 0x0A] @ ''2023-01-03,10.0,100'' @ [CHR 0x0A] @
        ''2023-01-04,12.0,200'' @ [CHR 0x0A] @ ''2023-01-05,11.0,150'' @ [CHR 0x0A] \<and>
      convert_df_to_csv sample_env sel =
      [68, 97, 116, 101, 44, 67, 108, 111, 115, 101, 44, 86, 111, 108, 117, 109, 101,
       10, 50, 48, 50, 51, 45, 48, 49, 45, 48, 51, 44, 49, 48, 46, 48, 44, 49, 48, 48,
       10, 50, 48, 50, 51, 45, 48, 49, 45, 48, 52, 44, 49, 50, 46, 48, 44, 50, 48, 48,
       10, 50, 48, 50, 51, 45, 48, 49, 45, 48, 53, 44, 49, 49, 46, 48, 44, 49, 53, 48,
       10])"
  have "P sel"
    unfolding P_def using s d u n t y by (simp only: v simp_thms)
  then have "\<exists>sel. P sel" ..
  with b1 b2 show ?thesis unfolding P_def by (iprover intro: conjI)
qed

text \<open>
  C10. The preview and the download button come before the emptiness check: in every
  run they are shown right after the date check, the button carrying the CSV bytes of
  the selected columns; when the loaded table is empty the only thing shown after them
  is the page error, no chart is shown and the run ends without exception.
\<close>

theorem export_precedes_emptiness_check:
  assumes "df = load_data e (ticker inp) (start_date inp) (end_date inp)"
    and "multiselect_ok df inp"
  shows "\<exists>sel out.
           getitem_list df (columns_to_show inp) = Inr sel \<and>
           index sel = index df \<and> map fst (columns sel) = columns_to_show inp \<and>
           shown (page e dir inp) =
             date_check inp @
             [Dataframe sel,
              Download_button ''Download selected as CSV'' (convert_df_to_csv e sel)
                (ticker inp @ '' Daily Stock Prices'') ''text/csv''] @ out \<and>
           (empty df \<longrightarrow>
              out = [Page_error ''No Data Available for the Selected Stock and Date range''] \<and>
              \<not> list_ex is_chart (shown (page e dir inp)) \<and>
              fault (page e dir inp) = None)"
proof -
  from getitem_list_present [OF assms(2)] obtain r where
    sel: "getitem_list df (columns_to_show inp) =
            Inr \<lparr>index_name = index_name df, index = index df, columns = r\<rparr>" and
    names: "map fst r = columns_to_show inp" by blast
  define sel where "sel = \<lparr>index_name = index_name df, index = index df, columns = r\<rparr>"
  define out where "out = fst (plotting dir inp df)"
  have s: "getitem_list df (columns_to_show inp) = Inr sel"
    using sel by (simp add: sel_def)
  note pg = page_unfold [OF assms(1) s, of dir]
  have "index sel = index df" "map fst (columns sel) = columns_to_show inp"
    using names by (simp_all add: sel_def)
  moreover have "shown (page e dir inp) =
             date_check inp @
             [Dataframe sel,
              Download_button ''Download selected as CSV'' (convert_df_to_csv e sel)
                (ticker inp @ '' Daily Stock Prices'') ''text/csv''] @ out"
    using pg by (simp add: out_def download_button_def)
  moreover have "empty df \<longrightarrow>
              out = [Page_error ''No Data Available for the Selected Stock and Date range''] \<and>
              \<not> list_ex is_chart (shown (page e dir inp)) \<and>
              fault (page e dir inp) = None"
    using pg no_chart_before_plotting [of inp sel e]
    by (auto simp add: out_def plotting_empty)
  ultimately show ?thesis using s by (iprover intro: exI conjI)
qed

theorem export_precedes_emptiness_check_witness:
  "late_start_table = load_data sample_env (ticker late_start_inputs)
     (start_date late_start_inputs) (end_date late_start_inputs) \<and>
   multiselect_ok late_start_table late_start_inputs \<and>
   empty late_start_table \<and>
   (\<exists>sel. getitem_list late_start_table (columns_to_show late_start_inputs) = Inr sel \<and>
      index sel = [] \<and> map fst (columns sel) = [''Close'', ''Volume''] \<and>
      shown (page sample_env sample_directory late_start_inputs) =
        date_check late_start_inputs @
        [Dataframe sel,
         Download_button ''Download selected as CSV'' (convert_df_to_csv sample_env sel)
           ''AAPL Daily Stock Prices'' ''text/csv'',
         Page_error ''No Data Available for the Selected Stock and Date range''] \<and>
      fault (page sample_env sample_directory late_start_inputs) = None)"
proof -
  have a1: "late_start_table = load_data sample_env (ticker late_start_inputs)
     (start_date late_start_inputs) (end_date late_start_inputs)"
    by (simp add: late_start_table_def late_start_inputs_def sample_inputs_def)
  have a2: "multiselect_ok late_start_table late_start_inputs"
    by (simp add: multiselect_ok_def late_start_table_eq late_start_inputs_def
        sample_inputs_def columns_to_list_def)
  have a3: "empty late_start_table" by (simp add: late_start_table_eq empty_def)
  have v: "ticker late_start_inputs @ '' Daily Stock Prices'' = ''AAPL Daily Stock Prices''"
    "columns_to_show late_start_inputs = [''Close'', ''Volume'']"
    "index late_start_table = []"
    by (simp_all add: late_start_inputs_def sample_inputs_def late_start_table_eq)
  from export_precedes_emptiness_check [OF a1 a2, of sample_directory] a3
  have "\<exists>sel. getitem_list late_start_table (columns_to_show late_start_inputs) = Inr sel \<and>
      index sel = [] \<and> map fst (columns sel) = [''Close'', ''Volume''] \<and>
      shown (page sample_env sample_directory late_start_inputs) =
        date_check late_start_inputs @
        [Dataframe sel,
         Download_button ''Download selected as CSV'' (convert_df_to_csv sample_env sel)
           ''AAPL Daily Stock Prices'' ''text/csv'',
         Page_error ''No Data Available for the Selected Stock and Date range''] \<and>
      fault (page sample_env sample_directory late_start_inputs) = None"
    unfolding v by auto
  with a1 a2 a3 show ?thesis by simp
qed

text \<open>
  C7. The code does not do what the claim says. The dictionary holding the browser
  user agent is the second positional argument of \<^verbatim>\<open>requests.get\<close>, which is the query
  parameters: the request carries the library's default headers unchanged and the user
  agent as a query parameter. The loader then subscripts the response, which raises.
\<close>

theorem user_agent_sent_as_query_parameter:
  "params (sp500_request default_headers) = [(''User-Agent'', spoofed_user_agent)] \<and>
   headers (sp500_request default_headers) = default_headers \<and>
   http_method (sp500_request default_headers) = ''GET'' \<and>
   url (sp500_request default_headers) = sp500_url \<and>
   get_sp500_components default_headers send =
     Inl (TypeError ''Response object is not subscriptable'')"
  by (simp add: sp500_request_def requests_get_def merge_headers_def
      get_sp500_components_def response_getitem_def Let_def)

lemma script_raises_at_line_17:
  "script default_headers send e widgets =
     \<lparr>shown = [], queries = [], fig = [],
      fault = Some (TypeError ''Response object is not subscriptable'')\<rparr>"
  by (simp add: script_def get_sp500_components_def response_getitem_def Let_def)

end
